theory Spec2Isabelle
  imports Complex_Main "HOL-Library.Sublist"
begin

section \<open>Python strings\<close>

text \<open>
  A Python \<open>str\<close> is modelled as a \<open>string\<close>.  The string methods the pipeline calls
  (\<open>lower\<close>, \<open>title\<close>, \<open>strip\<close>, \<open>in\<close>, \<open>endswith\<close>, \<open>split\<close>) are modelled on
  ASCII: the letters are \<open>A\<close>..\<open>Z\<close> and \<open>a\<close>..\<open>z\<close>, the whitespace characters are the
  ASCII ones of \<open>str.isspace\<close>.
\<close>

definition ascii_upper :: string where
  "ascii_upper = ''ABCDEFGHIJKLMNOPQRSTUVWXYZ''"

definition ascii_lower :: string where
  "ascii_lower = ''abcdefghijklmnopqrstuvwxyz''"

definition isupper :: "char \<Rightarrow> bool" where
  "isupper c = (c \<in> set ascii_upper)"

definition islower :: "char \<Rightarrow> bool" where
  "islower c = (c \<in> set ascii_lower)"

definition lower_char :: "char \<Rightarrow> char" where
  "lower_char c = (case map_of (zip ascii_upper ascii_lower) c of Some d \<Rightarrow> d | None \<Rightarrow> c)"

definition upper_char :: "char \<Rightarrow> char" where
  "upper_char c = (case map_of (zip ascii_lower ascii_upper) c of Some d \<Rightarrow> d | None \<Rightarrow> c)"

definition lower :: "string \<Rightarrow> string" where
  "lower s = map lower_char s"

text \<open>
  \<open>str.title()\<close>: a cased character that follows an uncased one is upper-cased, a cased
  character that follows a cased one is lower-cased.  The flag is CPython's
  \<open>previous_is_cased\<close>.
\<close>

fun title_from :: "bool \<Rightarrow> string \<Rightarrow> string" where
  "title_from previous_is_cased [] = []"
| "title_from previous_is_cased (c # cs) =
     (if islower c then
        (if previous_is_cased then c else upper_char c) # title_from True cs
      else if isupper c then
        (if previous_is_cased then lower_char c else c) # title_from True cs
      else c # title_from False cs)"

definition title :: "string \<Rightarrow> string" where
  "title s = title_from False s"

definition isspace :: "char \<Rightarrow> bool" where
  "isspace c = (c \<in> set [CHR 0x09, CHR 0x0A, CHR 0x0B, CHR 0x0C, CHR 0x0D,
                           CHR 0x1C, CHR 0x1D, CHR 0x1E, CHR 0x1F, CHR 0x20])"

definition lstrip :: "string \<Rightarrow> string" where
  "lstrip s = dropWhile isspace s"

definition rstrip :: "string \<Rightarrow> string" where
  "rstrip s = rev (dropWhile isspace (rev s))"

definition strip :: "string \<Rightarrow> string" where
  "strip s = rstrip (lstrip s)"

text \<open>\<open>s.startswith(p)\<close>, \<open>s.endswith(p)\<close> and the substring test \<open>sub in s\<close>.\<close>

fun startswith :: "string \<Rightarrow> string \<Rightarrow> bool" where
  "startswith s [] = True"
| "startswith [] (p # ps) = False"
| "startswith (c # cs) (p # ps) = (c = p \<and> startswith cs ps)"

definition endswith :: "string \<Rightarrow> string \<Rightarrow> bool" where
  "endswith s p = startswith (rev s) (rev p)"

fun py_in :: "string \<Rightarrow> string \<Rightarrow> bool" where
  "py_in sub [] = (sub = [])"
| "py_in sub (c # cs) = (startswith (c # cs) sub \<or> py_in sub cs)"

section \<open>Dimension Builder: property categories\<close>

text \<open>
  \<open>categorize_property\<close>, the function nested in \<open>create_dimension_tables\<close> of
  \<open>cloud-functions/etl-function/load.py\<close>; the branches are in the source's order.
\<close>

definition categorize_property :: "string \<Rightarrow> string" where
  "categorize_property type_name =
     (let type_lower = lower type_name in
      if py_in ''apartment'' type_lower \<or> py_in ''flat'' type_lower \<or> py_in ''studio'' type_lower
        then ''Residential-Apartment''
      else if py_in ''villa'' type_lower \<or> py_in ''house'' type_lower
        then ''Residential-House''
      else if py_in ''townhouse'' type_lower
        then ''Residential-Townhouse''
      else if py_in ''penthouse'' type_lower
        then ''Residential-Luxury''
      else ''Other'')"

section \<open>Timestamps and the calendar\<close>

text \<open>
  A pandas \<open>Timestamp\<close> (\<open>datetime64[ns]\<close>, no time zone) is the number of nanoseconds
  since 1970-01-01T00:00: a value of \<open>list_date\<close> after \<open>pd.to_datetime\<close> keeps the
  time of day its text had.  \<open>NaT\<close> is \<open>None\<close> in a column of timestamps.

  The calendar fields pandas reads off a timestamp (\<open>.dt.year\<close>, \<open>.dt.month\<close>,
  \<open>strftime\<close>) are those of the proleptic Gregorian calendar; \<open>civil_from_days\<close>
  computes them from the day number by the usual era arithmetic (400-year eras of 146097
  days, years starting in March), one step per definition.
\<close>

type_synonym timestamp = int

definition ns_per_day :: int where
  "ns_per_day = 86400000000000"

definition year_of_era :: "int \<Rightarrow> int" where
  "year_of_era doe = (doe - doe div 1460 + doe div 36524 - doe div 146096) div 365"

definition day_of_year :: "int \<Rightarrow> int \<Rightarrow> int" where
  "day_of_year doe yoe = doe - (365 * yoe + yoe div 4 - yoe div 100)"

definition civil_month :: "int \<Rightarrow> int" where
  "civil_month mp = (if mp < 10 then mp + 3 else mp - 9)"

definition civil_of_parts :: "int \<Rightarrow> int \<Rightarrow> int \<Rightarrow> int \<Rightarrow> int \<times> int \<times> int" where
  "civil_of_parts era yoe doy mp =
     (yoe + era * 400 + (if civil_month mp \<le> 2 then 1 else 0),
      civil_month mp,
      doy - (153 * mp + 2) div 5 + 1)"

definition civil_of_doy :: "int \<Rightarrow> int \<Rightarrow> int \<Rightarrow> int \<times> int \<times> int" where
  "civil_of_doy era yoe doy = civil_of_parts era yoe doy ((5 * doy + 2) div 153)"

definition civil_of_yoe :: "int \<Rightarrow> int \<Rightarrow> int \<Rightarrow> int \<times> int \<times> int" where
  "civil_of_yoe era doe yoe = civil_of_doy era yoe (day_of_year doe yoe)"

definition civil_of_era :: "int \<Rightarrow> int \<Rightarrow> int \<times> int \<times> int" where
  "civil_of_era z era = civil_of_yoe era (z - era * 146097) (year_of_era (z - era * 146097))"

definition civil_from_days :: "int \<Rightarrow> int \<times> int \<times> int" where
  "civil_from_days z = civil_of_era (z + 719468) ((z + 719468) div 146097)"

text \<open>The inverse direction, used to write a timestamp down as a calendar date and a time.\<close>

definition shifted_year :: "int \<Rightarrow> int \<Rightarrow> int" where
  "shifted_year y m = (if m \<le> 2 then y - 1 else y)"

definition shifted_doy :: "int \<Rightarrow> int \<Rightarrow> int" where
  "shifted_doy m d = (153 * (if m > 2 then m - 3 else m + 9) + 2) div 5 + d - 1"

definition days_of_shifted :: "int \<Rightarrow> int \<Rightarrow> int" where
  "days_of_shifted y doy =
     (y div 400) * 146097 +
     ((y mod 400) * 365 + (y mod 400) div 4 - (y mod 400) div 100 + doy) - 719468"

definition days_from_civil :: "int \<Rightarrow> int \<Rightarrow> int \<Rightarrow> int" where
  "days_from_civil y m d = days_of_shifted (shifted_year y m) (shifted_doy m d)"

definition Timestamp :: "int \<Rightarrow> int \<Rightarrow> int \<Rightarrow> int \<Rightarrow> int \<Rightarrow> int \<Rightarrow> timestamp" where
  "Timestamp y m d hh mm ss =
     days_from_civil y m d * ns_per_day + (hh * 3600 + mm * 60 + ss) * 1000000000"

definition day_number :: "timestamp \<Rightarrow> int" where
  "day_number t = t div ns_per_day"

definition dt_year :: "timestamp \<Rightarrow> int" where
  "dt_year t = fst (civil_from_days (day_number t))"

definition dt_month :: "timestamp \<Rightarrow> int" where
  "dt_month t = fst (snd (civil_from_days (day_number t)))"

definition dt_day :: "timestamp \<Rightarrow> int" where
  "dt_day t = snd (snd (civil_from_days (day_number t)))"

text \<open>\<open>.dt.strftime('%Y%m%d').astype(int)\<close>: the years of a pandas timestamp have four digits.\<close>

definition strftime_Ymd_int :: "timestamp \<Rightarrow> int" where
  "strftime_Ymd_int t = dt_year t * 10000 + dt_month t * 100 + dt_day t"

text \<open>\<open>.dt.quarter\<close>, \<open>.dt.dayofweek\<close> (Monday is 0; day 0 was a Thursday) and the names.\<close>

definition dt_quarter :: "timestamp \<Rightarrow> int" where
  "dt_quarter t = (dt_month t - 1) div 3 + 1"

definition dt_dayofweek :: "timestamp \<Rightarrow> int" where
  "dt_dayofweek t = (day_number t + 3) mod 7"

definition month_names :: "string list" where
  "month_names = [''January'', ''February'', ''March'', ''April'', ''May'', ''June'', ''July'',
                  ''August'', ''September'', ''October'', ''November'', ''December'']"

definition day_names :: "string list" where
  "day_names = [''Monday'', ''Tuesday'', ''Wednesday'', ''Thursday'', ''Friday'', ''Saturday'',
                ''Sunday'']"

definition strftime_B :: "timestamp \<Rightarrow> string" where
  "strftime_B t = month_names ! nat (dt_month t - 1)"

definition strftime_A :: "timestamp \<Rightarrow> string" where
  "strftime_A t = day_names ! nat (dt_dayofweek t)"

text \<open>
  \<open>pd.date_range(start, end, freq='D')\<close>: the timestamps \<open>start\<close>, \<open>start\<close> + 1 day, ...
  that are not after \<open>end\<close>.  The steps are whole days from \<open>start\<close>, so every element
  has the time of day of \<open>start\<close>.
\<close>

definition date_range :: "timestamp \<Rightarrow> timestamp \<Rightarrow> timestamp list" where
  "date_range start end = map (\<lambda>k. start + k * ns_per_day) [0..(end - start) div ns_per_day]"

lemmas calendar_defs = year_of_era_def day_of_year_def civil_month_def civil_of_parts_def
  civil_of_doy_def civil_of_yoe_def civil_of_era_def civil_from_days_def shifted_year_def
  shifted_doy_def days_of_shifted_def days_from_civil_def Timestamp_def day_number_def
  dt_year_def dt_month_def dt_day_def strftime_Ymd_int_def ns_per_day_def dt_quarter_def
  dt_dayofweek_def month_names_def day_names_def strftime_B_def strftime_A_def date_range_def

section \<open>Errors and data frames\<close>

text \<open>
  A raised exception is a value: its class and (an ASCII abridgement of) its message.
\<close>

datatype error =
    ValueError string
  | TypeError string
  | KeyError string
  | IndexError string
  | NameError string
  | AttributeError string
  | NotFound string
  | QueryError string

text \<open>
  A row of the listings frame, one field per column the pipeline reads.  A cell that is
  missing (\<open>NaN\<close>, \<open>NaT\<close>, \<open>None\<close>, \<open><NA>\<close>) is \<open>None\<close>.  The field \<open>list_date\<close> holds
  what \<open>pd.to_datetime(..., errors='coerce')\<close> makes of the cell (\<open>None\<close> where the text
  does not parse); the numeric columns hold what \<open>pd.read_csv\<close> read into a numeric
  column, as exact rationals; the text columns hold strings.
\<close>

record listing =
  list_date :: "timestamp option"
  location :: "string option"
  property_type :: "string option"
  price :: "rat option"
  bedrooms :: "rat option"
  bathrooms :: "rat option"
  sqft :: "rat option"
  listing_status :: "string option"
  lot_size :: "rat option"

record dataframe =
  columns :: "string list"
  rows :: "listing list"

text \<open>The columns \<open>normalize_dataframe\<close> adds to a row.\<close>

record normalized = listing +
  price_per_sqft :: "rat option"
  location_key :: string
  property_type_key :: string
  date_key :: "int option"
  created_at :: timestamp
  updated_at :: timestamp

text \<open>Series reductions skip missing cells.\<close>

fun dropna_values :: "'a option list \<Rightarrow> 'a list" where
  "dropna_values [] = []"
| "dropna_values (None # xs) = dropna_values xs"
| "dropna_values (Some v # xs) = v # dropna_values xs"

definition median_sorted :: "rat list \<Rightarrow> rat option" where
  "median_sorted vs =
     (if vs = [] then None
      else if odd (length vs) then Some (vs ! (length vs div 2))
      else Some ((vs ! (length vs div 2 - 1) + vs ! (length vs div 2)) / 2))"

definition median :: "rat option list \<Rightarrow> rat option" where
  "median col = median_sorted (sort (dropna_values col))"

text \<open>
  \<open>Series.quantile(q)\<close> with the default linear interpolation: position \<open>(n - 1) q\<close> in
  the sorted values, interpolated between its two neighbours.
\<close>

definition interpolate :: "rat \<Rightarrow> rat \<Rightarrow> rat \<Rightarrow> rat" where
  "interpolate a b t = a + (b - a) * t"

definition value_at :: "rat list \<Rightarrow> rat \<Rightarrow> rat" where
  "value_at vs h =
     interpolate (vs ! nat \<lfloor>h\<rfloor>) (vs ! min (nat \<lfloor>h\<rfloor> + 1) (length vs - 1)) (h - of_int \<lfloor>h\<rfloor>)"

definition quantile_sorted :: "rat \<Rightarrow> rat list \<Rightarrow> rat option" where
  "quantile_sorted q vs =
     (if vs = [] then None else Some (value_at vs (of_nat (length vs - 1) * q)))"

definition quantile :: "rat \<Rightarrow> rat option list \<Rightarrow> rat option" where
  "quantile q col = quantile_sorted q (sort (dropna_values col))"

text \<open>\<open>Series.min()\<close> and \<open>Series.max()\<close> of a column of timestamps.\<close>

definition series_min :: "timestamp option list \<Rightarrow> timestamp option" where
  "series_min col = (case dropna_values col of [] \<Rightarrow> None | v # vs \<Rightarrow> Some (fold min vs v))"

definition series_max :: "timestamp option list \<Rightarrow> timestamp option" where
  "series_max col = (case dropna_values col of [] \<Rightarrow> None | v # vs \<Rightarrow> Some (fold max vs v))"

text \<open>\<open>fillna(v)\<close> on one cell; filling with a missing value changes nothing.\<close>

definition fillna :: "'a option \<Rightarrow> 'a option \<Rightarrow> 'a option" where
  "fillna v x = (case x of None \<Rightarrow> v | Some y \<Rightarrow> Some y)"

text \<open>\<open>drop_duplicates()\<close> keeps the first occurrence of each value, in order.\<close>

fun drop_duplicates :: "'a list \<Rightarrow> 'a list" where
  "drop_duplicates [] = []"
| "drop_duplicates (x # xs) = x # drop_duplicates (filter (\<lambda>y. y \<noteq> x) xs)"

text \<open>\<open>round(2)\<close>: to two decimals, a tie to the even neighbour.\<close>

definition round_half_even :: "rat \<Rightarrow> int" where
  "round_half_even x =
     (if x - of_int \<lfloor>x\<rfloor> < 1 / 2 then \<lfloor>x\<rfloor>
      else if x - of_int \<lfloor>x\<rfloor> > 1 / 2 then \<lfloor>x\<rfloor> + 1
      else if even \<lfloor>x\<rfloor> then \<lfloor>x\<rfloor> else \<lfloor>x\<rfloor> + 1)"

definition round2 :: "rat \<Rightarrow> rat" where
  "round2 x = of_int (round_half_even (x * 100)) / 100"

section \<open>Normalizer: \<open>normalize_dataframe\<close> of \<open>cloud-functions/etl-function/transform.py\<close>\<close>

text \<open>STEP 1: rows whose \<open>list_date\<close> did not parse are dropped.\<close>

definition standardize_dates :: "listing list \<Rightarrow> listing list" where
  "standardize_dates df = filter (\<lambda>r. list_date r \<noteq> None) df"

text \<open>
  STEP 2: a numeric column with a missing cell is filled with its median; \<open>location\<close> and
  \<open>property_type\<close> are filled with \<open>Unknown\<close>.
\<close>

definition fill_with_median ::
  "(listing \<Rightarrow> rat option) \<Rightarrow> ((rat option \<Rightarrow> rat option) \<Rightarrow> listing \<Rightarrow> listing) \<Rightarrow>
   listing list \<Rightarrow> listing list" where
  "fill_with_median col col_update df =
     (if None \<in> set (map col df) then map (col_update (fillna (median (map col df)))) df
      else df)"

definition handle_missing :: "listing list \<Rightarrow> listing list" where
  "handle_missing df =
     map (property_type_update (fillna (Some ''Unknown'')))
       (map (location_update (fillna (Some ''Unknown'')))
         (fill_with_median bathrooms bathrooms_update
           (fill_with_median bedrooms bedrooms_update
             (fill_with_median sqft sqft_update
               (fill_with_median price price_update df)))))"

text \<open>STEP 3: \<open>.str.strip().str.title()\<close> on both text columns.\<close>

definition standardize_text :: "listing list \<Rightarrow> listing list" where
  "standardize_text df =
     map (property_type_update (map_option (\<lambda>s. title (strip s))))
       (map (location_update (map_option (\<lambda>s. title (strip s)))) df)"

text \<open>
  STEP 4: \<open>pd.to_numeric\<close> leaves a numeric column as it is; \<open>astype('Int64')\<close> raises
  \<open>TypeError\<close> on a \<open>bedrooms\<close> value that is not a whole number; then the rows without
  \<open>price\<close> or \<open>sqft\<close> are dropped.
\<close>

definition is_whole :: "rat \<Rightarrow> bool" where
  "is_whole x = (of_int \<lfloor>x\<rfloor> = x)"

definition convert_types :: "listing list \<Rightarrow> error + listing list" where
  "convert_types df =
     (if list_ex (\<lambda>r. case bedrooms r of None \<Rightarrow> False | Some b \<Rightarrow> \<not> is_whole b) df
      then Inl (TypeError ''cannot safely cast non-equivalent float64 to int64'')
      else Inr (filter (\<lambda>r. price r \<noteq> None \<and> sqft r \<noteq> None) df))"

text \<open>The frame as STEP 5 finds it.\<close>

definition before_outlier_removal :: "dataframe \<Rightarrow> error + listing list" where
  "before_outlier_removal df =
     convert_types (standardize_text (handle_missing (standardize_dates (rows df))))"

text \<open>
  STEP 5: the fences \<open>Q1 - 1.5 * IQR\<close> and \<open>Q3 + 1.5 * IQR\<close> of the prices; a comparison
  with a missing value is false.
\<close>

definition Q1 :: "listing list \<Rightarrow> rat option" where
  "Q1 df = quantile (1 / 4) (map price df)"

definition Q3 :: "listing list \<Rightarrow> rat option" where
  "Q3 df = quantile (3 / 4) (map price df)"

definition lower_bound :: "rat option \<Rightarrow> rat option \<Rightarrow> rat option" where
  "lower_bound q1 q3 =
     (case (q1, q3) of (Some a, Some b) \<Rightarrow> Some (a - 3 / 2 * (b - a)) | _ \<Rightarrow> None)"

definition upper_bound :: "rat option \<Rightarrow> rat option \<Rightarrow> rat option" where
  "upper_bound q1 q3 =
     (case (q1, q3) of (Some a, Some b) \<Rightarrow> Some (b + 3 / 2 * (b - a)) | _ \<Rightarrow> None)"

definition outliers_mask :: "rat option \<Rightarrow> rat option \<Rightarrow> listing \<Rightarrow> bool" where
  "outliers_mask lo hi r =
     (case (price r, lo, hi) of (Some p, Some l, Some h) \<Rightarrow> p < l \<or> p > h | _ \<Rightarrow> False)"

definition drop_outliers :: "rat option \<Rightarrow> rat option \<Rightarrow> listing list \<Rightarrow> listing list" where
  "drop_outliers lo hi df =
     (if list_ex (outliers_mask lo hi) df then filter (\<lambda>r. \<not> outliers_mask lo hi r) df
      else df)"

definition remove_outliers :: "listing list \<Rightarrow> listing list" where
  "remove_outliers df =
     drop_outliers (lower_bound (Q1 df) (Q3 df)) (upper_bound (Q1 df) (Q3 df)) df"

text \<open>
  The reasonable minimums: \<open>price > 0\<close>, \<open>sqft > 0\<close>, \<open>bedrooms >= 0\<close>, \<open>bathrooms > 0\<close>;
  a missing cell fails its test.
\<close>

definition positive :: "rat option \<Rightarrow> bool" where
  "positive x = (case x of None \<Rightarrow> False | Some v \<Rightarrow> v > 0)"

definition non_negative :: "rat option \<Rightarrow> bool" where
  "non_negative x = (case x of None \<Rightarrow> False | Some v \<Rightarrow> v \<ge> 0)"

definition ensure_minimums :: "listing list \<Rightarrow> listing list" where
  "ensure_minimums df =
     filter (\<lambda>r. positive (bathrooms r))
       (filter (\<lambda>r. non_negative (bedrooms r))
         (filter (\<lambda>r. positive (sqft r))
           (filter (\<lambda>r. positive (price r)) df)))"

text \<open>The rows that survive STEPS 1 to 5 and the minimums.\<close>

definition surviving_rows :: "dataframe \<Rightarrow> error + listing list" where
  "surviving_rows df =
     (case before_outlier_removal df of
        Inl e \<Rightarrow> Inl e
      | Inr converted \<Rightarrow> Inr (ensure_minimums (remove_outliers converted)))"

text \<open>
  STEPS 6 to 8: \<open>price_per_sqft\<close>, the dimension keys, the two time stamps (the clock is
  read twice) and the defaults of the optional columns.  \<open>astype(str)\<close> writes a missing
  cell as \<open>nan\<close>.  The division is by a positive \<open>sqft\<close> here.
\<close>

definition divide_round2 :: "rat option \<Rightarrow> rat option \<Rightarrow> rat option" where
  "divide_round2 p s =
     (case (p, s) of
        (Some x, Some y) \<Rightarrow> (if y = 0 then None else Some (round2 (x / y)))
      | _ \<Rightarrow> None)"

definition astype_str :: "string option \<Rightarrow> string" where
  "astype_str x = (case x of None \<Rightarrow> ''nan'' | Some s \<Rightarrow> s)"

definition with_defaults :: "string list \<Rightarrow> listing \<Rightarrow> listing" where
  "with_defaults cols r =
     r\<lparr>listing_status :=
          (if ''listing_status'' \<in> set cols then listing_status r else Some ''Active''),
       lot_size := (if ''lot_size'' \<in> set cols then lot_size r else None)\<rparr>"

definition add_columns :: "(nat \<Rightarrow> timestamp) \<Rightarrow> string list \<Rightarrow> listing \<Rightarrow> normalized" where
  "add_columns utcnow cols r =
     listing.extend (with_defaults cols r)
       (normalized.fields
          (divide_round2 (price r) (sqft r))
          (astype_str (location r))
          (astype_str (property_type r))
          (map_option strftime_Ymd_int (list_date r))
          (utcnow 0)
          (utcnow 1))"

text \<open>STEP 9: an empty result is an error.\<close>

definition final_validation :: "normalized list \<Rightarrow> error + normalized list" where
  "final_validation df =
     (if length df = 0
      then Inl (ValueError ''All rows were filtered out during transformation!'')
      else Inr df)"

definition normalize_dataframe :: "(nat \<Rightarrow> timestamp) \<Rightarrow> dataframe \<Rightarrow> error + normalized list" where
  "normalize_dataframe utcnow df =
     (case surviving_rows df of
        Inl e \<Rightarrow> Inl e
      | Inr survivors \<Rightarrow> final_validation (map (add_columns utcnow (columns df)) survivors))"

section \<open>Dimension Builder: \<open>create_dimension_tables\<close> of \<open>cloud-functions/etl-function/load.py\<close>\<close>

text \<open>
  The rows of the three dimension tables.  The columns \<open>location\<close>, \<open>property_type\<close> and
  \<open>created_at\<close> of the dimension tables are the fields \<open>loc_location\<close>,
  \<open>pt_property_type\<close>, \<open>loc_created_at\<close> and \<open>pt_created_at\<close>.
\<close>

record location_row =
  location_id :: nat
  loc_location :: "string option"
  city :: "string option"
  state :: "string option"
  zip_code :: "string option"
  region :: string
  loc_created_at :: timestamp

record property_type_row =
  property_type_id :: nat
  pt_property_type :: "string option"
  type_name :: "string option"
  category :: string
  pt_created_at :: timestamp

record date_row =
  full_date :: timestamp
  date_id :: int
  year :: int
  month :: int
  month_name :: string
  quarter :: int
  day_of_week :: int
  day_name :: string
  is_weekend :: bool

text \<open>The dictionary \<open>dim_tables\<close> that \<open>create_dimension_tables\<close> returns.\<close>

record dim_tables =
  location_table :: "location_row list"
  property_type_table :: "property_type_row list"
  date_table :: "date_row list"

text \<open>The row that \<open>load_fact_table\<close> writes; its columns carry the prefix \<open>f_\<close>.\<close>

record fact_row =
  f_location_id :: "nat option"
  f_property_type_id :: "nat option"
  f_date_id :: "int option"
  f_list_date :: "timestamp option"
  f_listing_status :: "string option"
  f_price :: "rat option"
  f_bedrooms :: "rat option"
  f_bathrooms :: "rat option"
  f_sqft :: "rat option"
  f_lot_size :: "rat option"
  f_price_per_sqft :: "rat option"
  f_created_at :: timestamp
  f_updated_at :: timestamp
  listing_id :: nat

text \<open>
  The warehouse: the four BigQuery tables.  A load job with \<open>WRITE_TRUNCATE\<close> replaces a
  table, one with \<open>WRITE_APPEND\<close> appends to it; the load jobs are taken to succeed.
\<close>

record warehouse =
  dim_location :: "location_row list"
  dim_property_type :: "property_type_row list"
  dim_date :: "date_row list"
  fact_listings :: "fact_row list"

subsection \<open>Dimension 1: location\<close>

text \<open>
  \<open>.str.contains(',')\<close>, and the two columns of \<open>.str.split(',', n=1, expand=True)\<close>:
  the text before the first comma, and the text after it (missing without a comma).
\<close>

definition contains_comma :: "string option \<Rightarrow> bool" where
  "contains_comma l = (case l of None \<Rightarrow> False | Some s \<Rightarrow> CHR '','' \<in> set s)"

definition split_first :: "string \<Rightarrow> string" where
  "split_first s = takeWhile (\<lambda>c. c \<noteq> CHR '','') s"

definition split_rest :: "string \<Rightarrow> string option" where
  "split_rest s =
     (if CHR '','' \<in> set s then Some (drop 1 (dropWhile (\<lambda>c. c \<noteq> CHR '','') s)) else None)"

definition city_of :: "bool \<Rightarrow> string option \<Rightarrow> string option" where
  "city_of any_comma l = (if any_comma then map_option (\<lambda>s. strip (split_first s)) l else l)"

definition state_of :: "bool \<Rightarrow> string option \<Rightarrow> string option" where
  "state_of any_comma l =
     (if any_comma then Option.bind l (\<lambda>s. map_option strip (split_rest s)) else None)"

definition location_row_of :: "timestamp \<Rightarrow> bool \<Rightarrow> nat \<times> string option \<Rightarrow> location_row" where
  "location_row_of now any_comma il =
     \<lparr>location_id = fst il, loc_location = snd il,
      city = city_of any_comma (snd il), state = state_of any_comma (snd il),
      zip_code = None, region = ''UAE'', loc_created_at = now\<rparr>"

definition build_locations :: "timestamp \<Rightarrow> normalized list \<Rightarrow> location_row list" where
  "build_locations now df =
     map (location_row_of now (list_ex contains_comma (drop_duplicates (map location df))))
       (enumerate 1 (drop_duplicates (map location df)))"

subsection \<open>Dimension 2: property type\<close>

text \<open>
  \<open>.apply(categorize_property)\<close> goes through the names in order; on a cell that is not
  a string, \<open>type_name.lower()\<close> raises \<open>AttributeError\<close>.
\<close>

fun apply_categorize_property :: "string option list \<Rightarrow> error + string list" where
  "apply_categorize_property [] = Inr []"
| "apply_categorize_property (None # ts) =
     Inl (AttributeError ''float object has no attribute lower'')"
| "apply_categorize_property (Some s # ts) =
     (case apply_categorize_property ts of
        Inl e \<Rightarrow> Inl e
      | Inr cs \<Rightarrow> Inr (categorize_property s # cs))"

definition property_type_row_of :: "timestamp \<Rightarrow> (nat \<times> string option) \<times> string \<Rightarrow> property_type_row" where
  "property_type_row_of now itc =
     \<lparr>property_type_id = fst (fst itc), pt_property_type = snd (fst itc),
      type_name = snd (fst itc), category = snd itc, pt_created_at = now\<rparr>"

definition build_property_types :: "timestamp \<Rightarrow> normalized list \<Rightarrow> error + property_type_row list" where
  "build_property_types now df =
     (case apply_categorize_property (drop_duplicates (map property_type df)) of
        Inl e \<Rightarrow> Inl e
      | Inr categories \<Rightarrow>
          Inr (map (property_type_row_of now)
                 (zip (enumerate 1 (drop_duplicates (map property_type df))) categories)))"

subsection \<open>Dimension 3: date\<close>

definition date_row_of :: "timestamp \<Rightarrow> date_row" where
  "date_row_of t =
     \<lparr>full_date = t, date_id = strftime_Ymd_int t, year = dt_year t, month = dt_month t,
      month_name = strftime_B t, quarter = dt_quarter t, day_of_week = dt_dayofweek t,
      day_name = strftime_A t, is_weekend = (dt_dayofweek t \<in> set [5, 6])\<rparr>"

text \<open>
  The range runs from the smallest to the largest \<open>list_date\<close> of the frame;
  \<open>pd.date_range\<close> raises \<open>ValueError\<close> when they are \<open>NaT\<close> (a frame without a date).
\<close>

definition build_dates :: "normalized list \<Rightarrow> error + date_row list" where
  "build_dates df =
     (case (series_min (map list_date df), series_max (map list_date df)) of
        (Some min_date, Some max_date) \<Rightarrow> Inr (map date_row_of (date_range min_date max_date))
      | _ \<Rightarrow> Inl (ValueError ''Neither start nor end can be NaT''))"

subsection \<open>The three loads\<close>

text \<open>
  The tables are built and loaded one after the other, so an exception leaves the tables
  loaded before it replaced.  The clock is read once for each of the first two tables.
\<close>

definition create_dimension_tables ::
  "(nat \<Rightarrow> timestamp) \<Rightarrow> normalized list \<Rightarrow> warehouse \<Rightarrow> (error + dim_tables) \<times> warehouse" where
  "create_dimension_tables utcnow df wh =
     (case build_property_types (utcnow 1) df of
        Inl e \<Rightarrow> (Inl e, wh\<lparr>dim_location := build_locations (utcnow 0) df\<rparr>)
      | Inr property_types \<Rightarrow>
          (case build_dates df of
             Inl e \<Rightarrow>
               (Inl e, wh\<lparr>dim_location := build_locations (utcnow 0) df,
                           dim_property_type := property_types\<rparr>)
           | Inr dates \<Rightarrow>
               (Inr \<lparr>location_table = build_locations (utcnow 0) df,
                     property_type_table = property_types,
                     date_table = dates\<rparr>,
                wh\<lparr>dim_location := build_locations (utcnow 0) df,
                   dim_property_type := property_types,
                   dim_date := dates\<rparr>)))"

section \<open>Fact Loader: \<open>load_fact_table\<close> of \<open>cloud-functions/etl-function/load.py\<close>\<close>

text \<open>
  \<open>left.merge(right, how='left')\<close> on one key: every left row, in order, once for each
  right row with its key, and once with nothing when no right row has it.
\<close>

definition merge_left ::
  "('a \<Rightarrow> 'k) \<Rightarrow> ('b \<Rightarrow> 'k) \<Rightarrow> 'a list \<Rightarrow> 'b list \<Rightarrow> ('a \<times> 'b option) list" where
  "merge_left left_on right_on left right =
     concat (map (\<lambda>l. case filter (\<lambda>r. right_on r = left_on l) right of
                         [] \<Rightarrow> [(l, None)]
                       | m # ms \<Rightarrow> map (\<lambda>r. (l, Some r)) (m # ms)) left)"

type_synonym joined_row =
  "((normalized \<times> location_row option) \<times> property_type_row option) \<times> date_row option"

text \<open>
  The three joins: on \<open>location\<close>, on \<open>property_type\<close>, and on
  \<open>date_key = list_date.dt.strftime('%Y%m%d').astype(int)\<close> against \<open>date_id\<close>.
\<close>

definition join_dimensions :: "dim_tables \<Rightarrow> normalized list \<Rightarrow> joined_row list" where
  "join_dimensions dim_tables df =
     merge_left (\<lambda>j. map_option strftime_Ymd_int (list_date (fst (fst j))))
                (\<lambda>d. Some (date_id d))
       (merge_left (\<lambda>j. property_type (fst j)) pt_property_type
          (merge_left location loc_location df (location_table dim_tables))
          (property_type_table dim_tables))
       (date_table dim_tables)"

definition fact_row_of :: "nat \<times> joined_row \<Rightarrow> fact_row" where
  "fact_row_of ij =
     \<lparr>f_location_id = map_option location_id (snd (fst (fst (snd ij)))),
      f_property_type_id = map_option property_type_id (snd (fst (snd ij))),
      f_date_id = map_option date_id (snd (snd ij)),
      f_list_date = list_date (fst (fst (fst (snd ij)))),
      f_listing_status = listing_status (fst (fst (fst (snd ij)))),
      f_price = price (fst (fst (fst (snd ij)))),
      f_bedrooms = bedrooms (fst (fst (fst (snd ij)))),
      f_bathrooms = bathrooms (fst (fst (fst (snd ij)))),
      f_sqft = sqft (fst (fst (fst (snd ij)))),
      f_lot_size = lot_size (fst (fst (fst (snd ij)))),
      f_price_per_sqft = price_per_sqft (fst (fst (fst (snd ij)))),
      f_created_at = created_at (fst (fst (fst (snd ij)))),
      f_updated_at = updated_at (fst (fst (fst (snd ij)))),
      listing_id = fst ij\<rparr>"

definition fact_rows :: "dim_tables \<Rightarrow> normalized list \<Rightarrow> fact_row list" where
  "fact_rows dim_tables df = map fact_row_of (enumerate 1 (join_dimensions dim_tables df))"

text \<open>
  \<open>astype(int)\<close> of the date key raises \<open>ValueError\<close> on a missing \<open>list_date\<close>.  The
  rows are appended to \<open>fact_listings\<close>; the result is their number.
\<close>

definition load_fact_table :: "normalized list \<Rightarrow> dim_tables \<Rightarrow> warehouse \<Rightarrow> (error + nat) \<times> warehouse" where
  "load_fact_table df dim_tables wh =
     (if list_ex (\<lambda>r. list_date r = None) df
      then (Inl (ValueError ''cannot convert float NaN to integer''), wh)
      else (Inr (length (fact_rows dim_tables df)),
            wh\<lparr>fact_listings := fact_listings wh @ fact_rows dim_tables df\<rparr>))"

section \<open>Entry points\<close>

text \<open>
  The storage event, the bucket contents (the text of each object), and \<open>pd.read_csv\<close>
  as a parameter.  \<open>download_as_text\<close> raises \<open>NotFound\<close> for an object that is not in
  the bucket.
\<close>

record cloud_event =
  bucket :: string
  name :: string

type_synonym storage = "string \<times> string \<Rightarrow> string option"

subsection \<open>\<open>process_csv\<close> of \<open>cloud-functions/etl-function/main.py\<close>\<close>

definition required_columns :: "string list" where
  "required_columns =
     [''list_date'', ''location'', ''property_type'', ''price'', ''bedrooms'', ''bathrooms'',
      ''sqft'']"

definition missing_columns :: "dataframe \<Rightarrow> string list" where
  "missing_columns df = filter (\<lambda>c. c \<notin> set (columns df)) required_columns"

text \<open>
  TRANSFORM and LOAD: the clock readings of \<open>create_dimension_tables\<close> come after the two
  of \<open>normalize_dataframe\<close>.  An exception is printed and raised again.
\<close>

definition transform_and_load ::
  "(nat \<Rightarrow> timestamp) \<Rightarrow> dataframe \<Rightarrow> warehouse \<Rightarrow> (error + (string \<times> nat) option) \<times> warehouse" where
  "transform_and_load utcnow df wh =
     (case normalize_dataframe utcnow df of
        Inl e \<Rightarrow> (Inl e, wh)
      | Inr normalized_df \<Rightarrow>
          (case create_dimension_tables (\<lambda>k. utcnow (k + 2)) normalized_df wh of
             (Inl e, wh') \<Rightarrow> (Inl e, wh')
           | (Inr dim_tables, wh') \<Rightarrow>
               (case load_fact_table normalized_df dim_tables wh' of
                  (Inl e, wh'') \<Rightarrow> (Inl e, wh'')
                | (Inr rows_loaded, wh'') \<Rightarrow> (Inr (Some (''Success'', 200)), wh''))))"

definition process_csv ::
  "(string \<Rightarrow> error + dataframe) \<Rightarrow> storage \<Rightarrow> (nat \<Rightarrow> timestamp) \<Rightarrow> warehouse \<Rightarrow> cloud_event \<Rightarrow>
   (error + (string \<times> nat) option) \<times> warehouse" where
  "process_csv read_csv storage utcnow wh cloud_event =
     (if \<not> endswith (lower (name cloud_event)) ''.csv''
      then (Inr (Some (''Not a CSV file'', 200)), wh)
      else
        (case storage (bucket cloud_event, name cloud_event) of
           None \<Rightarrow> (Inl (NotFound (name cloud_event)), wh)
         | Some content \<Rightarrow>
             (case read_csv content of
                Inl e \<Rightarrow> (Inl e, wh)
              | Inr df \<Rightarrow>
                  (if missing_columns df \<noteq> []
                   then (Inl (ValueError ''Missing required columns''), wh)
                   else transform_and_load utcnow df wh))))"

subsection \<open>\<open>process_csv\<close> of \<open>src/main.py\<close>\<close>

text \<open>
  The names bound in the module \<open>src/main.py\<close>: its imports, its module-level
  assignments and its function.  A name that is neither local, nor one of these, nor a
  builtin raises \<open>NameError\<close> when it is read; \<open>io\<close> is read in
  \<open>pd.read_csv(io.StringIO(content))\<close>.
\<close>

definition src_main_globals :: "string list" where
  "src_main_globals =
     [''functions_framework'', ''storage'', ''bigquery'', ''pd'', ''normalize_dataframe'',
      ''create_dimension_tables'', ''load_fact_table'', ''os'', ''storage_client'',
      ''bigquery_client'', ''PROJECT_ID'', ''DATASET_ID'', ''process_csv'']"

definition load_global :: "string list \<Rightarrow> string \<Rightarrow> error + unit" where
  "load_global globals n = (if n \<in> set globals then Inr () else Inl (NameError n))"

text \<open>
  The steps after the read of \<open>io\<close> (\<open>pd.read_csv\<close>, then \<open>normalize_dataframe\<close>,
  \<open>create_dimension_tables\<close> and \<open>load_fact_table\<close> of \<open>src/transform.py\<close> and
  \<open>src/load.py\<close>) are the parameters \<open>read_csv\<close> and \<open>steps\<close>.  A name that does not
  end in \<open>.csv\<close> returns \<open>None\<close>.
\<close>

definition src_main_process_csv ::
  "(string \<Rightarrow> error + dataframe) \<Rightarrow>
   (dataframe \<Rightarrow> warehouse \<Rightarrow> (error + (string \<times> nat) option) \<times> warehouse) \<Rightarrow>
   storage \<Rightarrow> warehouse \<Rightarrow> cloud_event \<Rightarrow> (error + (string \<times> nat) option) \<times> warehouse" where
  "src_main_process_csv read_csv steps storage wh cloud_event =
     (if \<not> endswith (name cloud_event) ''.csv''
      then (Inr None, wh)
      else
        (case storage (bucket cloud_event, name cloud_event) of
           None \<Rightarrow> (Inl (NotFound (name cloud_event)), wh)
         | Some content \<Rightarrow>
             (case load_global src_main_globals ''io'' of
                Inl e \<Rightarrow> (Inl e, wh)
              | Inr u \<Rightarrow>
                  (case read_csv content of
                     Inl e \<Rightarrow> (Inl e, wh)
                   | Inr df \<Rightarrow> steps df wh))))"

section \<open>Aggregator and Reporter: \<open>cloud-functions/analytics-function/main.py\<close>\<close>

text \<open>
  A cell of a query result is a number, a string or \<open>None\<close>; a record of
  \<open>df.to_dict(orient='records')\<close> is a dictionary from column names to cells.  The entry
  of one query in \<open>results\<close> is the list of its records or, when the query raised, the
  dictionary \<open>{'error': str(e)}\<close>.
\<close>

datatype py_value = Num rat | Str string | NoneValue

type_synonym record_dict = "(string \<times> py_value) list"

datatype query_result = Records "record_dict list" | ErrorDict string

type_synonym results = "(string \<times> query_result) list"

definition str_of_error :: "error \<Rightarrow> string" where
  "str_of_error e =
     (case e of ValueError m \<Rightarrow> m | TypeError m \<Rightarrow> m | KeyError m \<Rightarrow> m | IndexError m \<Rightarrow> m
      | NameError m \<Rightarrow> m
      | AttributeError m \<Rightarrow> m | NotFound m \<Rightarrow> m | QueryError m \<Rightarrow> m)"

subsection \<open>\<open>execute_analytical_queries\<close>\<close>

text \<open>
  The eight queries, in the order of the dictionary \<open>queries\<close>.  BigQuery is the parameter
  \<open>run_query\<close>: the records of a query, or the exception it raises.  Each query runs in
  its own \<open>try\<close>; an exception is stored as the error entry of that query.
\<close>

definition query_names :: "string list" where
  "query_names =
     [''summary_stats'', ''monthly_trends'', ''location_analysis'',
      ''property_type_distribution'', ''price_correlations'', ''top_10_expensive'',
      ''bedroom_distribution'', ''price_brackets'']"

definition execute_query :: "(string \<Rightarrow> error + record_dict list) \<Rightarrow> string \<Rightarrow> string \<times> query_result" where
  "execute_query run_query query_name =
     (case run_query query_name of
        Inr df \<Rightarrow> (query_name, Records df)
      | Inl e \<Rightarrow> (query_name, ErrorDict (str_of_error e)))"

definition execute_analytical_queries :: "(string \<Rightarrow> error + record_dict list) \<Rightarrow> results" where
  "execute_analytical_queries run_query = map (execute_query run_query) query_names"

subsection \<open>\<open>generate_html_report\<close>\<close>

text \<open>
  What Python does with an entry of \<open>results\<close>.  Its truth value: a list is true when it
  is not empty, and the error dictionary, which has one key, is true.  \<open>entry[0]\<close>: the
  first record of a list, \<open>KeyError\<close> on the error dictionary.  \<open>for row in entry\<close>: the
  records of a list, and the one key \<open>error\<close>, a string, of the error dictionary.
\<close>

datatype row_item = DictRow record_dict | StrRow string

definition truthy :: "query_result \<Rightarrow> bool" where
  "truthy entry = (case entry of Records rs \<Rightarrow> rs \<noteq> [] | ErrorDict m \<Rightarrow> True)"

definition first_item :: "query_result \<Rightarrow> error + row_item" where
  "first_item entry =
     (case entry of
        Records [] \<Rightarrow> Inl (IndexError ''list index out of range'')
      | Records (r # rs) \<Rightarrow> Inr (DictRow r)
      | ErrorDict m \<Rightarrow> Inl (KeyError ''0''))"

definition items :: "query_result \<Rightarrow> row_item list" where
  "items entry = (case entry of Records rs \<Rightarrow> map DictRow rs | ErrorDict m \<Rightarrow> [StrRow ''error''])"

text \<open>\<open>row[key]\<close> and \<open>row.get(key, 0)\<close>; a string cannot be indexed by a string.\<close>

definition getitem :: "row_item \<Rightarrow> string \<Rightarrow> error + py_value" where
  "getitem row key =
     (case row of
        DictRow d \<Rightarrow> (case map_of d key of None \<Rightarrow> Inl (KeyError key) | Some v \<Rightarrow> Inr v)
      | StrRow s \<Rightarrow> Inl (TypeError ''string indices must be integers''))"

definition get_or_zero :: "row_item \<Rightarrow> string \<Rightarrow> error + py_value" where
  "get_or_zero row key =
     (case row of
        DictRow d \<Rightarrow> (case map_of d key of None \<Rightarrow> Inr (Num 0) | Some v \<Rightarrow> Inr v)
      | StrRow s \<Rightarrow> Inl (AttributeError ''str object has no attribute get''))"

text \<open>
  The replacement fields of the f-strings: \<open>{v}\<close> takes any cell; \<open>{v:,.0f}\<close> and the
  other float formats, and \<open>{v:,}\<close>, take a number and raise on a string or on \<open>None\<close>;
  \<open>v > 0\<close> raises on a string or on \<open>None\<close>.  The text they produce is not kept.
\<close>

definition plain :: "error + py_value \<Rightarrow> error + unit" where
  "plain v = (case v of Inl e \<Rightarrow> Inl e | Inr x \<Rightarrow> Inr ())"

definition format_number :: "error + py_value \<Rightarrow> error + unit" where
  "format_number v =
     (case v of
        Inl e \<Rightarrow> Inl e
      | Inr (Num x) \<Rightarrow> Inr ()
      | Inr (Str s) \<Rightarrow> Inl (ValueError ''Unknown format code for object of type str'')
      | Inr NoneValue \<Rightarrow> Inl (TypeError ''unsupported format string passed to NoneType.__format__''))"

definition greater_than_zero :: "error + py_value \<Rightarrow> error + unit" where
  "greater_than_zero v =
     (case v of
        Inl e \<Rightarrow> Inl e
      | Inr (Num x) \<Rightarrow> Inr ()
      | Inr (Str s) \<Rightarrow> Inl (TypeError ''> not supported between instances of str and int'')
      | Inr NoneValue \<Rightarrow> Inl (TypeError ''> not supported between instances of NoneType and int''))"

text \<open>The fields of one f-string are evaluated from left to right; the first exception wins.\<close>

fun first_error :: "(error + unit) list \<Rightarrow> error + unit" where
  "first_error [] = Inr ()"
| "first_error (Inl e # fs) = Inl e"
| "first_error (Inr u # fs) = first_error fs"

text \<open>The table rows and the two single-record blocks, field by field as in the source.\<close>

definition summary_stats_block :: "row_item \<Rightarrow> error + unit" where
  "summary_stats_block stats =
     first_error
       [format_number (get_or_zero stats ''total_listings''),
        format_number (get_or_zero stats ''avg_price''),
        format_number (get_or_zero stats ''avg_price_per_sqft''),
        format_number (get_or_zero stats ''avg_sqft''),
        format_number (get_or_zero stats ''avg_bedrooms'')]"

definition monthly_trends_row :: "row_item \<Rightarrow> error + unit" where
  "monthly_trends_row row =
     first_error
       [plain (getitem row ''month_name''), plain (getitem row ''year''),
        format_number (getitem row ''listing_count''),
        format_number (getitem row ''avg_price''),
        format_number (getitem row ''avg_price_per_sqft'')]"

definition location_analysis_row :: "row_item \<Rightarrow> error + unit" where
  "location_analysis_row row =
     first_error
       [plain (getitem row ''city''),
        format_number (getitem row ''listing_count''),
        format_number (getitem row ''avg_price''),
        format_number (getitem row ''avg_bedrooms''),
        format_number (getitem row ''avg_sqft''),
        format_number (getitem row ''avg_price_per_sqft'')]"

definition property_type_distribution_row :: "row_item \<Rightarrow> error + unit" where
  "property_type_distribution_row row =
     first_error
       [plain (getitem row ''type_name''),
        format_number (getitem row ''listing_count''),
        format_number (getitem row ''pct_of_total''),
        format_number (getitem row ''avg_price''),
        format_number (getitem row ''avg_bedrooms'')]"

definition price_correlations_block :: "row_item \<Rightarrow> error + unit" where
  "price_correlations_block corr =
     first_error
       [format_number (getitem corr ''price_sqft_correlation''),
        format_number (getitem corr ''price_bedrooms_correlation''),
        format_number (getitem corr ''price_bathrooms_correlation'')]"

definition top_10_expensive_row :: "row_item \<Rightarrow> error + unit" where
  "top_10_expensive_row row =
     first_error
       [plain (getitem row ''listing_id''), plain (getitem row ''city''),
        plain (getitem row ''type_name''), plain (getitem row ''bedrooms''),
        format_number (getitem row ''sqft''),
        format_number (getitem row ''price''),
        format_number (getitem row ''price_per_sqft'')]"

definition price_brackets_row :: "row_item \<Rightarrow> error + unit" where
  "price_brackets_row row =
     first_error
       [plain (getitem row ''price_bracket''),
        format_number (getitem row ''listing_count''),
        format_number (getitem row ''pct_of_total''),
        format_number (getitem row ''avg_price'')]"

definition bedroom_distribution_row :: "row_item \<Rightarrow> error + unit" where
  "bedroom_distribution_row row =
     first_error
       [greater_than_zero (getitem row ''bedrooms''),
        format_number (getitem row ''listing_count''),
        format_number (getitem row ''avg_price''),
        format_number (getitem row ''avg_sqft'')]"

text \<open>
  The report is kept as the list of its sections: the key of each section that was
  rendered and the number of records it shows.  A section is rendered when its key is in
  \<open>results\<close> and its entry is true.
\<close>

datatype html_section = Section string nat

definition block_section :: "string \<Rightarrow> (row_item \<Rightarrow> error + unit) \<Rightarrow> query_result \<Rightarrow> error + html_section" where
  "block_section key block entry =
     (case first_item entry of
        Inl e \<Rightarrow> Inl e
      | Inr item \<Rightarrow> (case block item of Inl e \<Rightarrow> Inl e | Inr u \<Rightarrow> Inr (Section key 1)))"

definition table_section :: "string \<Rightarrow> (row_item \<Rightarrow> error + unit) \<Rightarrow> query_result \<Rightarrow> error + html_section" where
  "table_section key row entry =
     (case first_error (map row (items entry)) of
        Inl e \<Rightarrow> Inl e
      | Inr u \<Rightarrow> Inr (Section key (length (items entry))))"

definition render_if_present ::
  "results \<Rightarrow> string \<Rightarrow> (string \<Rightarrow> query_result \<Rightarrow> error + html_section) \<Rightarrow> error + html_section list" where
  "render_if_present results key render =
     (case map_of results key of
        None \<Rightarrow> Inr []
      | Some entry \<Rightarrow>
          (if truthy entry
           then (case render key entry of Inl e \<Rightarrow> Inl e | Inr s \<Rightarrow> Inr [s])
           else Inr []))"

fun html_concat :: "(error + html_section list) list \<Rightarrow> error + html_section list" where
  "html_concat [] = Inr []"
| "html_concat (Inl e # parts) = Inl e"
| "html_concat (Inr s # parts) =
     (case html_concat parts of Inl e \<Rightarrow> Inl e | Inr ss \<Rightarrow> Inr (s @ ss))"

definition generate_html_report :: "results \<Rightarrow> string \<Rightarrow> error + html_section list" where
  "generate_html_report results timestamp =
     html_concat
       [render_if_present results ''summary_stats''
          (\<lambda>key. block_section key summary_stats_block),
        render_if_present results ''monthly_trends''
          (\<lambda>key. table_section key monthly_trends_row),
        render_if_present results ''location_analysis''
          (\<lambda>key. table_section key location_analysis_row),
        render_if_present results ''property_type_distribution''
          (\<lambda>key. table_section key property_type_distribution_row),
        render_if_present results ''price_correlations''
          (\<lambda>key. block_section key price_correlations_block),
        render_if_present results ''top_10_expensive''
          (\<lambda>key. table_section key top_10_expensive_row),
        render_if_present results ''price_brackets''
          (\<lambda>key. table_section key price_brackets_row),
        render_if_present results ''bedroom_distribution''
          (\<lambda>key. table_section key bedroom_distribution_row)]"

subsection \<open>\<open>generate_report\<close>\<close>

text \<open>
  The reports bucket receives the HTML report and the JSON report (the \<open>results\<close>); the
  uploads are taken to succeed.  The response is the body and the HTTP status: on success
  the time stamp and the number of queries executed, with status 200; on any exception
  of the \<open>try\<close> block its text, with status 500.
\<close>

datatype report = HtmlReport "html_section list" | JsonReport results

datatype response_body = SuccessBody string nat | ErrorBody string

type_synonym reports_bucket = "(string \<times> report) list"

definition generate_report ::
  "(string \<Rightarrow> error + record_dict list) \<Rightarrow> string \<Rightarrow> reports_bucket \<Rightarrow>
   (response_body \<times> nat) \<times> reports_bucket" where
  "generate_report run_query timestamp bucket_contents =
     (case generate_html_report (execute_analytical_queries run_query) timestamp of
        Inl e \<Rightarrow> ((ErrorBody (str_of_error e), 500), bucket_contents)
      | Inr html_report \<Rightarrow>
          ((SuccessBody timestamp (length (execute_analytical_queries run_query)), 200),
           bucket_contents @
             [(''reports/analytics_report_'' @ timestamp @ ''.html'', HtmlReport html_report),
              (''reports/analytics_data_'' @ timestamp @ ''.json'',
               JsonReport (execute_analytical_queries run_query))]))"

section \<open>A sample batch\<close>

text \<open>
  Six listings as \<open>pd.read_csv\<close> and \<open>pd.to_datetime\<close> deliver them; the dates carry a
  time of day, as those written by \<open>data/sample/generate_data.py\<close> do.
\<close>

definition listing_of ::
  "timestamp \<Rightarrow> string \<Rightarrow> string \<Rightarrow> rat \<Rightarrow> rat \<Rightarrow> rat \<Rightarrow> rat \<Rightarrow> listing" where
  "listing_of d l t p bd bt s =
     \<lparr>list_date = Some d, location = Some l, property_type = Some t, price = Some p,
      bedrooms = Some bd, bathrooms = Some bt, sqft = Some s,
      listing_status = None, lot_size = None\<rparr>"

definition sample_df :: dataframe where
  "sample_df =
     \<lparr>columns = required_columns,
      rows =
        [listing_of (Timestamp 2024 1 15 13 45 0) ''  dubai marina, dubai '' ''apartment''
           800000 2 2 1200,
         listing_of (Timestamp 2024 1 16 0 0 0) ''sharjah'' ''penthouse suite''
           900000 3 2 1500,
         listing_of (Timestamp 2024 1 17 8 0 0) ''sharjah'' ''villa''
           1000000 3 2 1500,
         listing_of (Timestamp 2024 1 16 0 0 0) ''al ain'' ''townhouse''
           1100000 4 3 2000,
         listing_of (Timestamp 2024 1 16 0 0 0) ''al ain'' ''villa''
           90000000 4 3 2000,
         listing_of (Timestamp 2024 1 16 0 0 0) ''al ain'' ''villa''
           950000 4 0 2000]\<rparr>"

definition sample_clock :: "nat \<Rightarrow> timestamp" where
  "sample_clock k = Timestamp 2024 2 1 9 0 (int k)"

definition normalized_of ::
  "timestamp \<Rightarrow> string \<Rightarrow> string \<Rightarrow> rat \<Rightarrow> rat \<Rightarrow> rat \<Rightarrow> rat \<Rightarrow> rat \<Rightarrow> int \<Rightarrow> normalized" where
  "normalized_of d l t p bd bt s pps k =
     \<lparr>list_date = Some d, location = Some l, property_type = Some t, price = Some p,
      bedrooms = Some bd, bathrooms = Some bt, sqft = Some s,
      listing_status = Some ''Active'', lot_size = None,
      price_per_sqft = Some pps, location_key = l, property_type_key = t,
      date_key = Some k, created_at = Timestamp 2024 2 1 9 0 0,
      updated_at = Timestamp 2024 2 1 9 0 1\<rparr>"

definition sample_normalized :: "normalized list" where
  "sample_normalized =
     [normalized_of (Timestamp 2024 1 15 13 45 0) ''Dubai Marina, Dubai'' ''Apartment''
        800000 2 2 1200 (66667 / 100) 20240115,
      normalized_of (Timestamp 2024 1 16 0 0 0) ''Sharjah'' ''Penthouse Suite''
        900000 3 2 1500 600 20240116,
      normalized_of (Timestamp 2024 1 17 8 0 0) ''Sharjah'' ''Villa''
        1000000 3 2 1500 (66667 / 100) 20240117,
      normalized_of (Timestamp 2024 1 16 0 0 0) ''Al Ain'' ''Townhouse''
        1100000 4 3 2000 550 20240116]"

text \<open>A batch in which no price is positive.\<close>

definition unsold_df :: dataframe where
  "unsold_df =
     \<lparr>columns = required_columns,
      rows =
        [listing_of (Timestamp 2024 1 15 0 0 0) ''sharjah'' ''villa'' 0 3 2 1500,
         listing_of (Timestamp 2024 1 16 0 0 0) ''al ain'' ''villa'' (- 100) 4 3 2000]\<rparr>"

text \<open>A bucket with the two files, the frames \<open>pd.read_csv\<close> reads from them, and an empty warehouse.\<close>

definition sample_storage :: storage where
  "sample_storage =
     [(''landing'', ''listings.csv'') \<mapsto> ''listings'', (''landing'', ''unsold.csv'') \<mapsto> ''unsold'']"

definition sample_read_csv :: "string \<Rightarrow> error + dataframe" where
  "sample_read_csv content =
     (if content = ''listings'' then Inr sample_df
      else if content = ''unsold'' then Inr unsold_df
      else Inl (ValueError ''No columns to parse from file''))"

definition empty_warehouse :: warehouse where
  "empty_warehouse = \<lparr>dim_location = [], dim_property_type = [], dim_date = [], fact_listings = []\<rparr>"

definition upload_event :: "string \<Rightarrow> cloud_event" where
  "upload_event file_name = \<lparr>bucket = ''landing'', name = file_name\<rparr>"

text \<open>
  The dimension tables of the sample batch, built at the clock readings that follow those
  of the normalizer, and a later clock for a second run.
\<close>

definition sample_dim_tables :: dim_tables where
  "sample_dim_tables =
     \<lparr>location_table =
        [\<lparr>location_id = 1, loc_location = Some ''Dubai Marina, Dubai'',
          city = Some ''Dubai Marina'', state = Some ''Dubai'', zip_code = None,
          region = ''UAE'', loc_created_at = Timestamp 2024 2 1 9 0 2\<rparr>,
         \<lparr>location_id = 2, loc_location = Some ''Sharjah'',
          city = Some ''Sharjah'', state = None, zip_code = None,
          region = ''UAE'', loc_created_at = Timestamp 2024 2 1 9 0 2\<rparr>,
         \<lparr>location_id = 3, loc_location = Some ''Al Ain'',
          city = Some ''Al Ain'', state = None, zip_code = None,
          region = ''UAE'', loc_created_at = Timestamp 2024 2 1 9 0 2\<rparr>],
      property_type_table =
        [\<lparr>property_type_id = 1, pt_property_type = Some ''Apartment'',
          type_name = Some ''Apartment'', category = ''Residential-Apartment'',
          pt_created_at = Timestamp 2024 2 1 9 0 3\<rparr>,
         \<lparr>property_type_id = 2, pt_property_type = Some ''Penthouse Suite'',
          type_name = Some ''Penthouse Suite'', category = ''Residential-House'',
          pt_created_at = Timestamp 2024 2 1 9 0 3\<rparr>,
         \<lparr>property_type_id = 3, pt_property_type = Some ''Villa'',
          type_name = Some ''Villa'', category = ''Residential-House'',
          pt_created_at = Timestamp 2024 2 1 9 0 3\<rparr>,
         \<lparr>property_type_id = 4, pt_property_type = Some ''Townhouse'',
          type_name = Some ''Townhouse'', category = ''Residential-House'',
          pt_created_at = Timestamp 2024 2 1 9 0 3\<rparr>],
      date_table =
        [\<lparr>full_date = Timestamp 2024 1 15 13 45 0, date_id = 20240115, year = 2024,
          month = 1, month_name = ''January'', quarter = 1, day_of_week = 0,
          day_name = ''Monday'', is_weekend = False\<rparr>,
         \<lparr>full_date = Timestamp 2024 1 16 13 45 0, date_id = 20240116, year = 2024,
          month = 1, month_name = ''January'', quarter = 1, day_of_week = 1,
          day_name = ''Tuesday'', is_weekend = False\<rparr>]\<rparr>"

definition load_clock :: "nat \<Rightarrow> timestamp" where
  "load_clock k = sample_clock (k + 2)"

definition later_clock :: "nat \<Rightarrow> timestamp" where
  "later_clock k = sample_clock (k + 60)"

text \<open>
  A warehouse that answers seven of the eight queries with one well-formed record and
  raises on the price correlations.
\<close>

definition sample_record :: record_dict where
  "sample_record =
     [(''total_listings'', Num 4), (''avg_price'', Num 950000), (''min_price'', Num 800000),
      (''max_price'', Num 1100000), (''avg_price_per_sqft'', Num 620), (''avg_sqft'', Num 1550),
      (''avg_bedrooms'', Num 3), (''year'', Num 2024), (''month'', Num 1),
      (''month_name'', Str ''January''), (''listing_count'', Num 4),
      (''city'', Str ''Sharjah''), (''type_name'', Str ''Villa''), (''pct_of_total'', Num 100),
      (''listing_id'', Num 3), (''bedrooms'', Num 3), (''sqft'', Num 1500),
      (''price'', Num 1000000), (''price_per_sqft'', Num (66667 / 100)),
      (''price_bracket'', Str ''Mid-Range (500K-1M)''),
      (''price_sqft_correlation'', Num (4 / 5)), (''price_bedrooms_correlation'', Num (3 / 5)),
      (''price_bathrooms_correlation'', Num (1 / 2))]"

definition healthy_warehouse :: "string \<Rightarrow> error + record_dict list" where
  "healthy_warehouse query_name = Inr [sample_record]"

definition failing_correlations :: "string \<Rightarrow> error + record_dict list" where
  "failing_correlations query_name =
     (if query_name = ''price_correlations'' then Inl (QueryError ''400 CORR failed'')
      else Inr [sample_record])"

section \<open>Predicates used in the statements\<close>

text \<open>A price cell that is missing or not above zero.\<close>

definition nonpositive :: "rat option \<Rightarrow> bool" where
  "nonpositive x = (case x of None \<Rightarrow> True | Some v \<Rightarrow> v \<le> 0)"

text \<open>A frame in which no price is positive.\<close>

definition all_nonpositive :: "listing list \<Rightarrow> bool" where
  "all_nonpositive df = list_all (\<lambda>r. nonpositive (price r)) df"

text \<open>A string without leading or trailing whitespace.\<close>

definition trimmed :: "string \<Rightarrow> bool" where
  "trimmed s = (case s of [] \<Rightarrow> True | c # cs \<Rightarrow> \<not> isspace c \<and> \<not> isspace (last (c # cs)))"

text \<open>The time of day of a timestamp, in nanoseconds after midnight.\<close>

definition time_of_day :: "timestamp \<Rightarrow> int" where
  "time_of_day t = t mod ns_per_day"

section \<open>Properties of the string functions\<close>

lemma startswith_prefix: "startswith s p \<longleftrightarrow> prefix p s"
  by (induction s p rule: startswith.induct) auto

lemma py_in_sublist: "py_in sub s \<longleftrightarrow> sublist sub s"
proof (induction s)
  case Nil
  show ?case by simp
next
  case (Cons c cs)
  then show ?case
    by (simp add: startswith_prefix sublist_Cons_right)
qed

lemma py_in_extend:
  assumes "sublist sub' sub" and "py_in sub s"
  shows "py_in sub' s"
proof -
  from assms(1) obtain a b where sub: "sub = a @ sub' @ b"
    by (auto simp: sublist_def)
  from assms(2) obtain p q where "s = p @ sub @ q"
    by (auto simp: py_in_sublist sublist_def)
  with sub have "s = (p @ a) @ sub' @ (b @ q)" by simp
  then have "sublist sub' s" unfolding sublist_def by blast
  then show ?thesis by (simp add: py_in_sublist)
qed

lemma house_in_townhouse: "py_in ''townhouse'' s \<Longrightarrow> py_in ''house'' s"
proof (rule py_in_extend)
  have "''townhouse'' = ''town'' @ ''house'' @ []" by simp
  then show "sublist ''house'' ''townhouse''" unfolding sublist_def by blast
qed

lemma house_in_penthouse: "py_in ''penthouse'' s \<Longrightarrow> py_in ''house'' s"
proof (rule py_in_extend)
  have "''penthouse'' = ''pent'' @ ''house'' @ []" by simp
  then show "sublist ''house'' ''penthouse''" unfolding sublist_def by blast
qed

subsection \<open>Trimmed strings\<close>

lemma trimmed_strip_id: "trimmed s \<Longrightarrow> strip s = s"
proof (cases s)
  case Nil
  then show ?thesis by (simp add: strip_def lstrip_def rstrip_def)
next
  case (Cons c cs)
  assume "trimmed s"
  with Cons have c: "\<not> isspace c" and l: "\<not> isspace (last (c # cs))"
    by (simp_all add: trimmed_def)
  from c have "lstrip (c # cs) = c # cs" by (simp add: lstrip_def)
  moreover have "rstrip (c # cs) = c # cs"
  proof -
    have "rev (c # cs) \<noteq> []" by simp
    then obtain d ds where r: "rev (c # cs) = d # ds" by (cases "rev (c # cs)") auto
    then have "d = last (c # cs)" by (metis hd_rev list.sel(1))
    with l r have "dropWhile isspace (rev (c # cs)) = rev (c # cs)" by simp
    then show ?thesis by (simp add: rstrip_def)
  qed
  ultimately show ?thesis using Cons by (simp add: strip_def)
qed

lemma last_dropWhile: "dropWhile P xs \<noteq> [] \<Longrightarrow> last (dropWhile P xs) = last xs"
  by (induction xs) (auto split: if_splits)

lemma trimmed_strip: "trimmed (strip s)"
proof (cases "strip s")
  case Nil
  then show ?thesis by (simp add: trimmed_def)
next
  case (Cons c cs)
  let ?u = "lstrip s"
  let ?v = "dropWhile isspace (rev ?u)"
  have t: "strip s = rev ?v" by (simp add: strip_def rstrip_def)
  with Cons have v: "?v \<noteq> []" by auto
  then have u: "?u \<noteq> []" by auto
  have "last (strip s) = hd ?v" using v by (simp add: t last_rev)
  moreover have "\<not> isspace (hd ?v)" using v by (rule hd_dropWhile)
  ultimately have l: "\<not> isspace (last (strip s))" by simp
  have "hd (strip s) = last ?v" using v by (simp add: t hd_rev)
  also have "\<dots> = last (rev ?u)" using v by (rule last_dropWhile)
  also have "\<dots> = hd ?u" using u by (simp add: last_rev)
  finally have "hd (strip s) = hd ?u" .
  moreover have "\<not> isspace (hd ?u)" using u unfolding lstrip_def by (rule hd_dropWhile)
  ultimately have h: "\<not> isspace (hd (strip s))" by simp
  from h l Cons show ?thesis by (simp add: trimmed_def)
qed

lemma islower_not_space: "islower c \<Longrightarrow> \<not> isspace c \<and> \<not> isspace (upper_char c)"
  by (auto simp: islower_def ascii_lower_def upper_char_def ascii_upper_def isspace_def)

lemma isupper_not_space: "isupper c \<Longrightarrow> \<not> isspace c \<and> \<not> isspace (lower_char c)"
  by (auto simp: isupper_def ascii_lower_def lower_char_def ascii_upper_def isspace_def)

lemma isspace_title_from: "map isspace (title_from b s) = map isspace s"
  by (induction s arbitrary: b) (auto simp: islower_not_space isupper_not_space)

lemma trimmed_map_isspace:
  assumes "map isspace s' = map isspace s"
  shows "trimmed s' = trimmed s"
proof (cases s)
  case Nil
  with assms show ?thesis by simp
next
  case (Cons c cs)
  with assms obtain c' cs' where s': "s' = c' # cs'" by (cases s') auto
  have "s \<noteq> []" "s' \<noteq> []" using Cons s' by simp_all
  then have "isspace (last s') = last (map isspace s')" "isspace (last s) = last (map isspace s)"
    by (simp_all add: last_map)
  with assms have "isspace (last s') = isspace (last s)" by simp
  moreover from assms Cons s' have "isspace c' = isspace c" by simp
  ultimately show ?thesis unfolding Cons s' trimmed_def by simp
qed

lemma trimmed_title_strip: "trimmed (title (strip s))"
  using trimmed_map_isspace [OF isspace_title_from, of False "strip s"] trimmed_strip [of s]
  by (simp add: title_def)

section \<open>Properties of the Normalizer\<close>

lemma add_columns_fields:
  "price (add_columns utcnow cols r) = price r"
  "sqft (add_columns utcnow cols r) = sqft r"
  "bedrooms (add_columns utcnow cols r) = bedrooms r"
  "bathrooms (add_columns utcnow cols r) = bathrooms r"
  "location (add_columns utcnow cols r) = location r"
  "property_type (add_columns utcnow cols r) = property_type r"
  "list_date (add_columns utcnow cols r) = list_date r"
  by (simp_all add: add_columns_def with_defaults_def listing.defs normalized.defs)

lemma normalize_dataframe_Inr:
  assumes "normalize_dataframe utcnow df = Inr out"
  obtains survivors where "surviving_rows df = Inr survivors"
    and "out = map (add_columns utcnow (columns df)) survivors" and "survivors \<noteq> []"
  using assms
  by (auto simp: normalize_dataframe_def final_validation_def split: sum.splits if_splits)

lemma surviving_rows_Inr:
  assumes "surviving_rows df = Inr survivors"
  obtains converted where "before_outlier_removal df = Inr converted"
    and "survivors = ensure_minimums (remove_outliers converted)"
  using assms by (auto simp: surviving_rows_def split: sum.splits)

lemma ensure_minimums_member:
  "r \<in> set (ensure_minimums df) \<longleftrightarrow>
     r \<in> set df \<and> positive (price r) \<and> positive (sqft r) \<and> non_negative (bedrooms r) \<and>
     positive (bathrooms r)"
  by (auto simp: ensure_minimums_def)

lemma positive_Some: "positive x \<longleftrightarrow> (\<exists>v. x = Some v \<and> 0 < v)"
  by (cases x) (simp_all add: positive_def)

lemma non_negative_Some: "non_negative x \<longleftrightarrow> (\<exists>v. x = Some v \<and> 0 \<le> v)"
  by (cases x) (simp_all add: non_negative_def)

text \<open>
  Claim C7.  Every row of the normalized output has \<open>price > 0\<close>, \<open>sqft > 0\<close>,
  \<open>bedrooms >= 0\<close> and \<open>bathrooms > 0\<close>, none of them missing: the rows that fail one
  of the four tests are filtered out before \<open>price_per_sqft\<close> is computed.
\<close>

theorem C7_reasonable_minimums:
  assumes "normalize_dataframe utcnow df = Inr out" and "r \<in> set out"
  shows "\<exists>p s bd bt. price r = Some p \<and> 0 < p \<and> sqft r = Some s \<and> 0 < s \<and>
           bedrooms r = Some bd \<and> 0 \<le> bd \<and> bathrooms r = Some bt \<and> 0 < bt"
proof -
  from assms(1) obtain survivors where s: "surviving_rows df = Inr survivors"
    and out: "out = map (add_columns utcnow (columns df)) survivors"
    by (rule normalize_dataframe_Inr)
  from s obtain converted where sv: "survivors = ensure_minimums (remove_outliers converted)"
    by (rule surviving_rows_Inr)
  from assms(2) out obtain r0 where r0: "r0 \<in> set survivors"
    and r: "r = add_columns utcnow (columns df) r0"
    by auto
  from r0 sv have "positive (price r0)" "positive (sqft r0)" "non_negative (bedrooms r0)"
    "positive (bathrooms r0)"
    by (simp_all add: ensure_minimums_member)
  then show ?thesis
    unfolding r add_columns_fields positive_Some non_negative_Some by blast
qed

lemma drop_outliers_member:
  "r \<in> set (drop_outliers lo hi df) \<longleftrightarrow> r \<in> set df \<and> \<not> outliers_mask lo hi r"
  by (auto simp: drop_outliers_def list_ex_iff)

lemma convert_types_Inr:
  assumes "convert_types df = Inr converted"
  shows "converted = filter (\<lambda>r. price r \<noteq> None \<and> sqft r \<noteq> None) df"
  using assms by (simp add: convert_types_def split: if_splits)

lemma dropna_values_set: "set (dropna_values xs) = {v. Some v \<in> set xs}"
  by (induction xs rule: dropna_values.induct) auto

lemma quantile_Some:
  assumes "Some v \<in> set col"
  shows "\<exists>q'. quantile q col = Some q'"
proof -
  from assms have "v \<in> set (dropna_values col)" by (simp add: dropna_values_set)
  then have "sort (dropna_values col) \<noteq> []" by (metis empty_iff empty_set set_sort)
  then show ?thesis by (simp add: quantile_def quantile_sorted_def)
qed

text \<open>
  Claim C3.  Every row of the normalized output has its price within
  \<open>[Q1 - 1.5 IQR, Q3 + 1.5 IQR]\<close>, where \<open>Q1\<close> and \<open>Q3\<close> are the quartiles of the prices
  of the frame as the outlier removal finds it (after STEP 4) and \<open>IQR = Q3 - Q1\<close>; the
  later filter on the minimums only removes rows.
\<close>

theorem C3_outlier_fence:
  assumes "normalize_dataframe utcnow df = Inr out" and "r \<in> set out"
  shows "\<exists>pre q1 q3 p. before_outlier_removal df = Inr pre \<and>
           Q1 pre = Some q1 \<and> Q3 pre = Some q3 \<and> price r = Some p \<and>
           q1 - 3 / 2 * (q3 - q1) \<le> p \<and> p \<le> q3 + 3 / 2 * (q3 - q1)"
proof -
  from assms(1) obtain survivors where s: "surviving_rows df = Inr survivors"
    and out: "out = map (add_columns utcnow (columns df)) survivors"
    by (rule normalize_dataframe_Inr)
  from s obtain pre where pre: "before_outlier_removal df = Inr pre"
    and sv: "survivors = ensure_minimums (remove_outliers pre)"
    by (rule surviving_rows_Inr)
  from assms(2) out obtain r0 where r0: "r0 \<in> set survivors"
    and r: "r = add_columns utcnow (columns df) r0"
    by auto
  from r0 sv have kept: "r0 \<in> set (remove_outliers pre)" and pos: "positive (price r0)"
    by (simp_all add: ensure_minimums_member)
  from pos obtain p where p: "price r0 = Some p" by (auto simp: positive_Some)
  from kept have mem: "r0 \<in> set pre"
    and mask: "\<not> outliers_mask (lower_bound (Q1 pre) (Q3 pre)) (upper_bound (Q1 pre) (Q3 pre)) r0"
    by (simp_all add: remove_outliers_def drop_outliers_member)
  from mem p have "Some p \<in> set (map price pre)" by force
  then obtain q1 q3 where q: "Q1 pre = Some q1" "Q3 pre = Some q3"
    unfolding Q1_def Q3_def using quantile_Some by meson
  from mask p q have "q1 - 3 / 2 * (q3 - q1) \<le> p \<and> p \<le> q3 + 3 / 2 * (q3 - q1)"
    by (simp add: outliers_mask_def lower_bound_def upper_bound_def not_less)
  with pre q p r show ?thesis by (simp add: add_columns_fields)
qed

subsection \<open>The sample batch\<close>

lemma normalize_dataframe_sample:
  "normalize_dataframe sample_clock sample_df = Inr sample_normalized"
  by code_simp

theorem C7_reasonable_minimums_witness:
  "normalize_dataframe sample_clock sample_df = Inr sample_normalized \<and>
   sample_normalized ! 3 \<in> set sample_normalized \<and>
   (\<exists>p s bd bt. price (sample_normalized ! 3) = Some p \<and> 0 < p \<and>
      sqft (sample_normalized ! 3) = Some s \<and> 0 < s \<and>
      bedrooms (sample_normalized ! 3) = Some bd \<and> 0 \<le> bd \<and>
      bathrooms (sample_normalized ! 3) = Some bt \<and> 0 < bt)"
proof -
  have mem: "sample_normalized ! 3 \<in> set sample_normalized"
    by (simp add: sample_normalized_def)
  from C7_reasonable_minimums [OF normalize_dataframe_sample mem]
  show ?thesis using normalize_dataframe_sample mem by blast
qed

theorem C3_outlier_fence_witness:
  "normalize_dataframe sample_clock sample_df = Inr sample_normalized \<and>
   sample_normalized ! 0 \<in> set sample_normalized \<and>
   (\<exists>pre q1 q3 p. before_outlier_removal sample_df = Inr pre \<and>
      Q1 pre = Some q1 \<and> Q3 pre = Some q3 \<and> price (sample_normalized ! 0) = Some p \<and>
      q1 - 3 / 2 * (q3 - q1) \<le> p \<and> p \<le> q3 + 3 / 2 * (q3 - q1))"
proof -
  have mem: "sample_normalized ! 0 \<in> set sample_normalized"
    by (simp add: sample_normalized_def)
  from C3_outlier_fence [OF normalize_dataframe_sample mem]
  show ?thesis using normalize_dataframe_sample mem by blast
qed

subsection \<open>A batch without a positive price\<close>

lemma median_sorted_nonpositive:
  assumes "\<And>v. v \<in> set vs \<Longrightarrow> v \<le> 0"
  shows "nonpositive (median_sorted vs)"
proof (cases "vs = []")
  case True
  then show ?thesis by (simp add: median_sorted_def nonpositive_def)
next
  case False
  then have n: "0 < length vs" by simp
  have a: "vs ! (length vs div 2) \<le> 0" using assms n by simp
  have b: "vs ! (length vs div 2 - 1) \<le> 0" using assms n by (simp add: less_imp_diff_less)
  from a b False show ?thesis by (simp add: median_sorted_def nonpositive_def)
qed

lemma median_nonpositive:
  assumes "\<And>x. x \<in> set col \<Longrightarrow> nonpositive x"
  shows "nonpositive (median col)"
  unfolding median_def
proof (rule median_sorted_nonpositive)
  fix v assume "v \<in> set (sort (dropna_values col))"
  then have "Some v \<in> set col" by (simp add: dropna_values_set)
  from assms[OF this] show "v \<le> 0" by (simp add: nonpositive_def)
qed

lemma fillna_nonpositive: "nonpositive v \<Longrightarrow> nonpositive x \<Longrightarrow> nonpositive (fillna v x)"
  by (cases x) (simp_all add: fillna_def)

lemma fill_price_nonpositive:
  assumes "all_nonpositive df"
  shows "all_nonpositive (fill_with_median price price_update df)"
proof -
  have "nonpositive (median (map price df))"
    using assms by (intro median_nonpositive) (auto simp: all_nonpositive_def list_all_iff)
  with assms show ?thesis
    by (auto simp: fill_with_median_def all_nonpositive_def list_all_iff intro: fillna_nonpositive)
qed

lemma fill_other_prices:
  "map price (fill_with_median sqft sqft_update df) = map price df"
  "map price (fill_with_median bedrooms bedrooms_update df) = map price df"
  "map price (fill_with_median bathrooms bathrooms_update df) = map price df"
  by (simp_all add: fill_with_median_def)

lemma all_nonpositive_map_price:
  "map price df' = map price df \<Longrightarrow> all_nonpositive df \<Longrightarrow> all_nonpositive df'"
proof -
  assume eq: "map price df' = map price df" and a: "all_nonpositive df"
  have "all_nonpositive xs \<longleftrightarrow> list_all nonpositive (map price xs)" for xs
    by (simp add: all_nonpositive_def list_all_iff)
  with eq a show ?thesis by simp
qed

lemma handle_missing_nonpositive:
  assumes "all_nonpositive df"
  shows "all_nonpositive (handle_missing df)"
proof -
  have "map price (handle_missing df) = map price (fill_with_median price price_update df)"
    by (simp add: handle_missing_def fill_other_prices comp_def)
  then show ?thesis using fill_price_nonpositive [OF assms] by (rule all_nonpositive_map_price)
qed

lemma standardize_text_prices: "map price (standardize_text df) = map price df"
  by (simp add: standardize_text_def comp_def)

lemma all_nonpositive_filter: "all_nonpositive df \<Longrightarrow> all_nonpositive (filter P df)"
  by (simp add: all_nonpositive_def list_all_iff)

lemma remove_outliers_subset: "set (remove_outliers df) \<subseteq> set df"
  by (auto simp: remove_outliers_def drop_outliers_member)

lemma ensure_minimums_nonpositive:
  assumes "\<And>r. r \<in> set df \<Longrightarrow> nonpositive (price r)"
  shows "ensure_minimums df = []"
proof -
  have "\<not> positive (price r)" if "r \<in> set df" for r
    using assms[OF that] by (cases "price r") (simp_all add: positive_def nonpositive_def)
  then have "filter (\<lambda>r. positive (price r)) df = []" by (simp add: filter_empty_conv)
  then show ?thesis by (simp add: ensure_minimums_def)
qed

lemma nonpositive_prices_eliminated:
  assumes "all_nonpositive (rows df)" and "surviving_rows df = Inr survivors"
  shows "survivors = []"
proof -
  from assms(2) obtain converted where c: "before_outlier_removal df = Inr converted"
    and s: "survivors = ensure_minimums (remove_outliers converted)"
    by (rule surviving_rows_Inr)
  have "all_nonpositive (standardize_dates (rows df))"
    using assms(1) unfolding standardize_dates_def by (rule all_nonpositive_filter)
  then have "all_nonpositive (handle_missing (standardize_dates (rows df)))"
    by (rule handle_missing_nonpositive)
  then have "all_nonpositive (standardize_text (handle_missing (standardize_dates (rows df))))"
    using standardize_text_prices by (rule all_nonpositive_map_price[rotated])
  moreover from c have "converted = filter (\<lambda>r. price r \<noteq> None \<and> sqft r \<noteq> None)
      (standardize_text (handle_missing (standardize_dates (rows df))))"
    unfolding before_outlier_removal_def by (rule convert_types_Inr)
  ultimately have "all_nonpositive converted" by (simp add: all_nonpositive_filter)
  then have "nonpositive (price r)" if "r \<in> set (remove_outliers converted)" for r
    using that remove_outliers_subset[of converted] by (auto simp: all_nonpositive_def list_all_iff)
  then show ?thesis unfolding s by (rule ensure_minimums_nonpositive)
qed

text \<open>
  Claim C2.  When every row of the batch is eliminated by the pipeline (no row survives
  STEPS 1 to 5 and the minimums; by \<open>nonpositive_prices_eliminated\<close> this is the case
  when no price is positive), \<open>normalize_dataframe\<close> raises the \<open>ValueError\<close> of its
  final validation, \<open>process_csv\<close> raises it again, and the warehouse is left as it
  was: no dimension row and no fact row is loaded.
\<close>

theorem C2_all_rows_eliminated:
  assumes "endswith (lower (name ev)) ''.csv''"
    and "storage (bucket ev, name ev) = Some content"
    and "read_csv content = Inr df"
    and "missing_columns df = []"
    and "surviving_rows df = Inr []"
  shows "normalize_dataframe utcnow df =
           Inl (ValueError ''All rows were filtered out during transformation!'') \<and>
         process_csv read_csv storage utcnow wh ev =
           (Inl (ValueError ''All rows were filtered out during transformation!''), wh)"
proof -
  from assms(5) have n: "normalize_dataframe utcnow df =
      Inl (ValueError ''All rows were filtered out during transformation!'')"
    by (simp add: normalize_dataframe_def final_validation_def)
  then have "transform_and_load utcnow df wh =
      (Inl (ValueError ''All rows were filtered out during transformation!''), wh)"
    by (simp add: transform_and_load_def)
  with assms(1-4) n show ?thesis by (simp add: process_csv_def)
qed

lemma surviving_rows_unsold: "surviving_rows unsold_df = Inr []"
  by code_simp

theorem C2_all_rows_eliminated_witness:
  "all_nonpositive (rows unsold_df) \<and> surviving_rows unsold_df = Inr [] \<and>
   normalize_dataframe sample_clock unsold_df =
     Inl (ValueError ''All rows were filtered out during transformation!'') \<and>
   process_csv sample_read_csv sample_storage sample_clock empty_warehouse
       (upload_event ''unsold.csv'') =
     (Inl (ValueError ''All rows were filtered out during transformation!''), empty_warehouse)"
proof -
  have np: "all_nonpositive (rows unsold_df)" by code_simp
  have h1: "endswith (lower (name (upload_event ''unsold.csv''))) ''.csv''" by code_simp
  have h2: "sample_storage (bucket (upload_event ''unsold.csv''), name (upload_event ''unsold.csv''))
     = Some ''unsold''"
    by (simp add: sample_storage_def upload_event_def)
  have h3: "sample_read_csv ''unsold'' = Inr unsold_df" by (simp add: sample_read_csv_def)
  have h4: "missing_columns unsold_df = []" by code_simp
  from C2_all_rows_eliminated [where ev = "upload_event ''unsold.csv''" and storage = sample_storage
      and read_csv = sample_read_csv and utcnow = sample_clock and wh = empty_warehouse,
      OF h1 h2 h3 h4 surviving_rows_unsold]
  show ?thesis using np surviving_rows_unsold by blast
qed

subsection \<open>Normalized locations are trimmed\<close>

lemma standardize_text_location:
  assumes "x \<in> set (standardize_text (handle_missing zs))"
  shows "\<exists>l0. location x = Some (title (strip l0))"
  using assms
  by (auto simp: standardize_text_def handle_missing_def fillna_def split: option.splits)

lemma normalized_location_trimmed:
  assumes "normalize_dataframe utcnow raw = Inr df" and "r \<in> set df"
  shows "\<exists>l. location r = Some l \<and> trimmed l"
proof -
  from assms(1) obtain survivors where s: "surviving_rows raw = Inr survivors"
    and out: "df = map (add_columns utcnow (columns raw)) survivors"
    by (rule normalize_dataframe_Inr)
  from s obtain converted where c: "before_outlier_removal raw = Inr converted"
    and sv: "survivors = ensure_minimums (remove_outliers converted)"
    by (rule surviving_rows_Inr)
  from assms(2) out obtain r0 where r0: "r0 \<in> set survivors"
    and r: "r = add_columns utcnow (columns raw) r0"
    by auto
  from r0 sv have "r0 \<in> set (remove_outliers converted)"
    by (simp add: ensure_minimums_member)
  then have "r0 \<in> set converted" using remove_outliers_subset by blast
  moreover from c have "converted = filter (\<lambda>r. price r \<noteq> None \<and> sqft r \<noteq> None)
      (standardize_text (handle_missing (standardize_dates (rows raw))))"
    unfolding before_outlier_removal_def by (rule convert_types_Inr)
  ultimately have "r0 \<in> set (standardize_text (handle_missing (standardize_dates (rows raw))))"
    by simp
  then obtain l0 where "location r0 = Some (title (strip l0))"
    using standardize_text_location by blast
  then show ?thesis using trimmed_title_strip by (simp add: r add_columns_fields)
qed

section \<open>Properties of the Dimension Builder\<close>

subsection \<open>Surrogate keys\<close>

lemma set_drop_duplicates: "set (drop_duplicates xs) = set xs"
  by (induction xs rule: drop_duplicates.induct) auto

lemma distinct_drop_duplicates: "distinct (drop_duplicates xs)"
  by (induction xs rule: drop_duplicates.induct) (auto simp: set_drop_duplicates)

text \<open>Order of first appearance: a value seen before gets no new row, a new value gets the next row.\<close>

lemma drop_duplicates_snoc:
  "drop_duplicates (xs @ [y]) =
     (if y \<in> set xs then drop_duplicates xs else drop_duplicates xs @ [y])"
proof (induction xs rule: drop_duplicates.induct)
  case 1
  show ?case by simp
next
  case (2 x xs)
  show ?case
  proof (cases "y = x")
    case True
    then show ?thesis by simp
  next
    case False
    with 2 show ?thesis by simp
  qed
qed

lemma map_fst_enumerate: "map fst (enumerate n xs) = [n..<n + length xs]"
  by (simp add: enumerate_eq_zip)

lemma map_snd_enumerate: "map snd (enumerate n xs) = xs"
  by (simp add: enumerate_eq_zip)

lemma build_locations_ids:
  "map location_id (build_locations now df) = [1..<Suc (length (build_locations now df))]"
  by (simp add: build_locations_def location_row_of_def comp_def map_fst_enumerate [unfolded comp_def])

lemma build_locations_keys:
  "map loc_location (build_locations now df) = drop_duplicates (map location df)"
  by (simp add: build_locations_def location_row_of_def comp_def map_snd_enumerate [unfolded comp_def])

subsection \<open>The shape of the tables\<close>

lemma create_dimension_tables_Inr:
  assumes "create_dimension_tables utcnow df wh = (Inr dims, wh')"
  obtains property_types dates where
    "build_property_types (utcnow 1) df = Inr property_types"
    "build_dates df = Inr dates"
    "dims = \<lparr>location_table = build_locations (utcnow 0) df,
             property_type_table = property_types, date_table = dates\<rparr>"
    "wh' = wh\<lparr>dim_location := build_locations (utcnow 0) df,
               dim_property_type := property_types, dim_date := dates\<rparr>"
  using assms by (auto simp: create_dimension_tables_def split: sum.splits)

lemma apply_categorize_property_Inr:
  "apply_categorize_property ts = Inr cs \<Longrightarrow>
     length cs = length ts \<and> None \<notin> set ts \<and>
     cs = map (\<lambda>t. case t of None \<Rightarrow> [] | Some s \<Rightarrow> categorize_property s) ts"
  by (induction ts arbitrary: cs rule: apply_categorize_property.induct)
     (auto split: sum.splits)

lemma build_property_types_Inr:
  assumes "build_property_types now df = Inr pts"
  shows "map property_type_id pts = [1..<Suc (length pts)]"
    and "map pt_property_type pts = drop_duplicates (map property_type df)"
    and "map type_name pts = drop_duplicates (map property_type df)"
    and "map category pts =
           map (\<lambda>t. case t of None \<Rightarrow> [] | Some s \<Rightarrow> categorize_property s)
             (drop_duplicates (map property_type df))"
    and "map pt_created_at pts = replicate (length pts) now"
proof -
  let ?ts = "drop_duplicates (map property_type df)"
  from assms obtain cs where cs: "apply_categorize_property ?ts = Inr cs"
    and pts: "pts = map (property_type_row_of now) (zip (enumerate 1 ?ts) cs)"
    by (auto simp: build_property_types_def split: sum.splits)
  from apply_categorize_property_Inr [OF cs] have len: "length cs = length ?ts"
    and cats: "cs = map (\<lambda>t. case t of None \<Rightarrow> [] | Some s \<Rightarrow> categorize_property s) ?ts"
    by simp_all
  have lp: "length pts = length ?ts" by (simp add: pts len)
  have f: "map fst (zip (enumerate 1 ?ts) cs) = enumerate 1 ?ts"
    by (rule map_fst_zip) (simp add: len)
  have s: "map snd (zip (enumerate 1 ?ts) cs) = cs"
    by (rule map_snd_zip) (simp add: len)
  have "map property_type_id pts = map fst (map fst (zip (enumerate 1 ?ts) cs))"
    by (simp add: pts property_type_row_of_def comp_def)
  then show "map property_type_id pts = [1..<Suc (length pts)]"
    unfolding f by (simp add: map_fst_enumerate lp)
  have "map pt_property_type pts = map snd (map fst (zip (enumerate 1 ?ts) cs))"
    by (simp add: pts property_type_row_of_def comp_def)
  then show "map pt_property_type pts = ?ts"
    unfolding f by (simp add: map_snd_enumerate)
  have "map type_name pts = map snd (map fst (zip (enumerate 1 ?ts) cs))"
    by (simp add: pts property_type_row_of_def comp_def)
  then show "map type_name pts = ?ts"
    unfolding f by (simp add: map_snd_enumerate)
  have "map category pts = map snd (zip (enumerate 1 ?ts) cs)"
    by (simp add: pts property_type_row_of_def comp_def)
  then show "map category pts = map (\<lambda>t. case t of None \<Rightarrow> [] | Some s \<Rightarrow> categorize_property s) ?ts"
    unfolding s using cats by simp
  show "map pt_created_at pts = replicate (length pts) now"
    by (simp add: pts property_type_row_of_def comp_def map_replicate_const)
qed

lemma build_property_types_clock:
  assumes "build_property_types now df = Inr pts"
  shows "build_property_types now' df = Inr (map (pt_created_at_update (\<lambda>t. now')) pts)"
  using assms
  by (auto simp: build_property_types_def property_type_row_of_def split: sum.splits)

lemma build_locations_clock:
  "build_locations now' df = map (loc_created_at_update (\<lambda>t. now')) (build_locations now df)"
  by (simp add: build_locations_def location_row_of_def)

subsection \<open>Rebuilding the dimensions\<close>

text \<open>
  Claim C6, as amended.  Running the Dimension Builder a second time on the same
  normalized batch (at any clock readings, over any warehouse) succeeds when the first run
  did and yields the same location and property type tables but for the column
  \<open>created_at\<close>, which holds the clock reading of each run, and the same date table.  The
  ids of the location and property type tables are 1, 2, ... in the order in which the
  values first appear in the batch (\<open>drop_duplicates_snoc\<close>: a value seen before gets no
  new row, a new value gets the next one).
\<close>

theorem C6_rebuild_same_but_created_at:
  assumes "create_dimension_tables utcnow df wh = (Inr dims, wh1)"
  shows "\<exists>dims' wh2. create_dimension_tables utcnow' df wh' = (Inr dims', wh2) \<and>
           map (loc_created_at_update (\<lambda>t. 0)) (location_table dims') =
             map (loc_created_at_update (\<lambda>t. 0)) (location_table dims) \<and>
           map (pt_created_at_update (\<lambda>t. 0)) (property_type_table dims') =
             map (pt_created_at_update (\<lambda>t. 0)) (property_type_table dims) \<and>
           date_table dims' = date_table dims \<and>
           map loc_created_at (location_table dims') =
             replicate (length (location_table dims')) (utcnow' 0) \<and>
           map pt_created_at (property_type_table dims') =
             replicate (length (property_type_table dims')) (utcnow' 1) \<and>
           map location_id (location_table dims) = [1..<Suc (length (location_table dims))] \<and>
           map loc_location (location_table dims) = drop_duplicates (map location df) \<and>
           map property_type_id (property_type_table dims) =
             [1..<Suc (length (property_type_table dims))] \<and>
           map pt_property_type (property_type_table dims) =
             drop_duplicates (map property_type df)"
proof -
  from assms obtain pts dates where pts: "build_property_types (utcnow 1) df = Inr pts"
    and dates: "build_dates df = Inr dates"
    and dims: "dims = \<lparr>location_table = build_locations (utcnow 0) df,
                        property_type_table = pts, date_table = dates\<rparr>"
    by (rule create_dimension_tables_Inr)
  let ?pts' = "map (pt_created_at_update (\<lambda>t. utcnow' 1)) pts"
  let ?dims' = "\<lparr>location_table = build_locations (utcnow' 0) df,
                  property_type_table = ?pts', date_table = dates\<rparr>"
  have pts': "build_property_types (utcnow' 1) df = Inr ?pts'"
    using pts by (rule build_property_types_clock)
  then have run: "create_dimension_tables utcnow' df wh' =
      (Inr ?dims', wh'\<lparr>dim_location := build_locations (utcnow' 0) df,
                        dim_property_type := ?pts', dim_date := dates\<rparr>)"
    using dates by (simp add: create_dimension_tables_def)
  have loc: "map (loc_created_at_update (\<lambda>t. 0)) (build_locations (utcnow' 0) df) =
      map (loc_created_at_update (\<lambda>t. 0)) (build_locations (utcnow 0) df)"
    by (simp add: build_locations_def location_row_of_def)
  have pt: "map (pt_created_at_update (\<lambda>t. 0)) ?pts' = map (pt_created_at_update (\<lambda>t. 0)) pts"
    by simp
  have lc: "map loc_created_at (build_locations (utcnow' 0) df) =
      replicate (length (build_locations (utcnow' 0) df)) (utcnow' 0)"
    by (simp add: build_locations_def location_row_of_def comp_def map_replicate_const)
  have pc: "map pt_created_at ?pts' = replicate (length ?pts') (utcnow' 1)"
    by (simp add: comp_def map_replicate_const)
  note ids = build_locations_ids [of "utcnow 0" df] build_locations_keys [of "utcnow 0" df]
    build_property_types_Inr(1,2) [OF pts]
  show ?thesis
    unfolding run dims using loc pt lc pc ids by simp
qed

text \<open>The first run on the sample batch, and a second run a minute later.\<close>

lemma create_dimension_tables_sample:
  "create_dimension_tables load_clock sample_normalized empty_warehouse =
     (Inr sample_dim_tables,
      \<lparr>dim_location = location_table sample_dim_tables,
       dim_property_type = property_type_table sample_dim_tables,
       dim_date = date_table sample_dim_tables, fact_listings = []\<rparr>)"
  by code_simp

theorem C6_rebuild_same_but_created_at_witness:
  "create_dimension_tables load_clock sample_normalized empty_warehouse =
     (Inr sample_dim_tables,
      \<lparr>dim_location = location_table sample_dim_tables,
       dim_property_type = property_type_table sample_dim_tables,
       dim_date = date_table sample_dim_tables, fact_listings = []\<rparr>) \<and>
   (\<exists>dims' wh2.
      create_dimension_tables later_clock sample_normalized
        (snd (create_dimension_tables load_clock sample_normalized empty_warehouse)) =
        (Inr dims', wh2) \<and>
      map (loc_created_at_update (\<lambda>t. 0)) (location_table dims') =
        map (loc_created_at_update (\<lambda>t. 0)) (location_table sample_dim_tables) \<and>
      map (pt_created_at_update (\<lambda>t. 0)) (property_type_table dims') =
        map (pt_created_at_update (\<lambda>t. 0)) (property_type_table sample_dim_tables) \<and>
      date_table dims' = date_table sample_dim_tables \<and>
      map location_id (location_table sample_dim_tables) = [1, 2, 3])"
proof -
  from C6_rebuild_same_but_created_at [OF create_dimension_tables_sample, of later_clock
      "snd (create_dimension_tables load_clock sample_normalized empty_warehouse)"]
  obtain dims' wh2 where run:
    "create_dimension_tables later_clock sample_normalized
        (snd (create_dimension_tables load_clock sample_normalized empty_warehouse)) =
        (Inr dims', wh2)"
    and loc: "map (loc_created_at_update (\<lambda>t. 0)) (location_table dims') =
        map (loc_created_at_update (\<lambda>t. 0)) (location_table sample_dim_tables)"
    and pt: "map (pt_created_at_update (\<lambda>t. 0)) (property_type_table dims') =
        map (pt_created_at_update (\<lambda>t. 0)) (property_type_table sample_dim_tables)"
    and dt: "date_table dims' = date_table sample_dim_tables"
    by blast
  have ids: "map location_id (location_table sample_dim_tables) = [1, 2, 3]"
    by (simp add: sample_dim_tables_def)
  show ?thesis
  proof (intro conjI exI)
    show "create_dimension_tables later_clock sample_normalized
        (snd (create_dimension_tables load_clock sample_normalized empty_warehouse)) =
        (Inr dims', wh2)" by (rule run)
  qed (rule create_dimension_tables_sample loc pt dt ids)+
qed

text \<open>
  The claim as first stated has the two runs yield identical tables, their \<open>created_at\<close>
  columns included; the second run of the sample does not return the tables of the first.
\<close>

theorem C6_created_at_counterexample:
  "fst (create_dimension_tables load_clock sample_normalized empty_warehouse) =
     Inr sample_dim_tables \<and>
   fst (create_dimension_tables later_clock sample_normalized
         (snd (create_dimension_tables load_clock sample_normalized empty_warehouse))) \<noteq>
     Inr sample_dim_tables"
  by code_simp

subsection \<open>The location split\<close>

lemma filter_distinct_key:
  assumes "distinct (map f xs)" and "k \<in> set (map f xs)"
  shows "\<exists>x. filter (\<lambda>y. f y = k) xs = [x]"
  using assms
proof (induction xs)
  case Nil
  then show ?case by simp
next
  case (Cons a xs)
  show ?case
  proof (cases "f a = k")
    case True
    with Cons.prems have "k \<notin> set (map f xs)" by simp
    then have "filter (\<lambda>y. f y = k) xs = []" by (auto simp: filter_empty_conv)
    with True show ?thesis by simp
  next
    case False
    with Cons show ?thesis by auto
  qed
qed

lemma split_at_first_comma:
  assumes "CHR '','' \<notin> set before"
  shows "split_first (before @ CHR '','' # after) = before"
    and "split_rest (before @ CHR '','' # after) = Some after"
proof -
  have p: "\<And>x. x \<in> set before \<Longrightarrow> x \<noteq> CHR '',''" using assms by auto
  show "split_first (before @ CHR '','' # after) = before"
    unfolding split_first_def by (simp add: takeWhile_append2 p)
  have "dropWhile (\<lambda>c. c \<noteq> CHR '','') (before @ CHR '','' # after) = CHR '','' # after"
    by (simp add: dropWhile_append2 p)
  then show "split_rest (before @ CHR '','' # after) = Some after"
    by (simp add: split_rest_def)
qed

lemma split_without_comma:
  assumes "CHR '','' \<notin> set l"
  shows "split_first l = l" and "split_rest l = None"
proof -
  have "\<And>x. x \<in> set l \<Longrightarrow> x \<noteq> CHR '',''" using assms by auto
  then show "split_first l = l" unfolding split_first_def by (simp add: takeWhile_eq_all_conv)
  show "split_rest l = None" using assms by (simp add: split_rest_def)
qed

lemma build_locations_row:
  assumes "row \<in> set (build_locations now df)"
  shows "city row =
           city_of (list_ex contains_comma (drop_duplicates (map location df))) (loc_location row)"
    and "state row =
           state_of (list_ex contains_comma (drop_duplicates (map location df))) (loc_location row)"
proof -
  from assms obtain il where
    "row = location_row_of now (list_ex contains_comma (drop_duplicates (map location df))) il"
    unfolding build_locations_def set_map by (rule imageE)
  then show "city row =
           city_of (list_ex contains_comma (drop_duplicates (map location df))) (loc_location row)"
    and "state row =
           state_of (list_ex contains_comma (drop_duplicates (map location df))) (loc_location row)"
    by (simp_all add: location_row_of_def)
qed

text \<open>
  Claim C8.  Every location of a normalized batch has exactly one row in the location
  table.  If the location has no comma, the row's city is the full string and its state
  is missing, whether or not another location of the batch has a comma; if it has one,
  the city is the trimmed text before the first comma and the state the trimmed text
  after it.
\<close>

theorem C8_location_split:
  assumes "normalize_dataframe utcnow0 raw = Inr df"
    and "create_dimension_tables utcnow df wh = (Inr dims, wh')"
    and "r \<in> set df"
  shows "\<exists>l row. location r = Some l \<and>
           filter (\<lambda>row'. loc_location row' = Some l) (location_table dims) = [row] \<and>
           (CHR '','' \<notin> set l \<longrightarrow> city row = Some l \<and> state row = None) \<and>
           (\<forall>before after. l = before @ CHR '','' # after \<and> CHR '','' \<notin> set before \<longrightarrow>
              city row = Some (strip before) \<and> state row = Some (strip after))"
proof -
  from assms(1,3) obtain l where l: "location r = Some l" and tr: "trimmed l"
    using normalized_location_trimmed by blast
  let ?keys = "drop_duplicates (map location df)"
  let ?any = "list_ex contains_comma ?keys"
  let ?tbl = "build_locations (utcnow 0) df"
  from assms(2) obtain pts dates where
    "dims = \<lparr>location_table = ?tbl, property_type_table = pts, date_table = dates\<rparr>"
    by (rule create_dimension_tables_Inr)
  then have tbl: "location_table dims = ?tbl" by simp
  have keys: "map loc_location ?tbl = ?keys" by (rule build_locations_keys)
  have "Some l \<in> set (map location df)" using l assms(3) by (metis image_eqI set_map)
  then have mem: "Some l \<in> set ?keys" by (simp only: set_drop_duplicates)
  have d: "distinct (map loc_location ?tbl)" unfolding keys by (rule distinct_drop_duplicates)
  have m: "Some l \<in> set (map loc_location ?tbl)" unfolding keys by (rule mem)
  from filter_distinct_key [of loc_location ?tbl "Some l", OF d m]
  obtain row where row: "filter (\<lambda>row'. loc_location row' = Some l) ?tbl = [row]" ..
  have "row \<in> set (filter (\<lambda>row'. loc_location row' = Some l) ?tbl)"
    unfolding row by simp
  then have in_tbl: "row \<in> set ?tbl" and key: "loc_location row = Some l" by simp_all
  from build_locations_row [OF in_tbl] key
  have city: "city row = city_of ?any (Some l)" and state: "state row = state_of ?any (Some l)"
    by simp_all
  have no_comma: "city row = Some l \<and> state row = None" if "CHR '','' \<notin> set l"
    using city state trimmed_strip_id [OF tr] split_without_comma [OF that]
    by (simp add: city_of_def state_of_def)
  have comma: "city row = Some (strip before) \<and> state row = Some (strip after)"
    if eq: "l = before @ CHR '','' # after" and nb: "CHR '','' \<notin> set before" for before after
  proof -
    from eq have "contains_comma (Some l)" by (simp add: contains_comma_def)
    with mem have a: "?any" unfolding list_ex_iff by blast
    from city state a show ?thesis
      unfolding eq by (simp add: city_of_def state_of_def split_at_first_comma [OF nb])
  qed
  show ?thesis
  proof (intro exI conjI allI impI)
    show "location r = Some l" by (rule l)
    show "filter (\<lambda>row'. loc_location row' = Some l) (location_table dims) = [row]"
      unfolding tbl by (rule row)
    show "city row = Some l" if "CHR '','' \<notin> set l" using no_comma [OF that] by simp
    show "state row = None" if "CHR '','' \<notin> set l" using no_comma [OF that] by simp
    show "city row = Some (strip before)"
      if "l = before @ CHR '','' # after \<and> CHR '','' \<notin> set before" for before after
      using comma [of before after] that by simp
    show "state row = Some (strip after)"
      if "l = before @ CHR '','' # after \<and> CHR '','' \<notin> set before" for before after
      using comma [of before after] that by simp
  qed
qed

theorem C8_location_split_witness:
  "normalize_dataframe sample_clock sample_df = Inr sample_normalized \<and>
   create_dimension_tables load_clock sample_normalized empty_warehouse =
     (Inr sample_dim_tables,
      \<lparr>dim_location = location_table sample_dim_tables,
       dim_property_type = property_type_table sample_dim_tables,
       dim_date = date_table sample_dim_tables, fact_listings = []\<rparr>) \<and>
   sample_normalized ! 1 \<in> set sample_normalized \<and>
   location (sample_normalized ! 1) = Some ''Sharjah'' \<and>
   (\<exists>row. filter (\<lambda>row'. loc_location row' = Some ''Sharjah'')
            (location_table sample_dim_tables) = [row] \<and>
          city row = Some ''Sharjah'' \<and> state row = None)"
proof -
  have mem: "sample_normalized ! 1 \<in> set sample_normalized"
    by (simp add: sample_normalized_def)
  have loc: "location (sample_normalized ! 1) = Some ''Sharjah''"
    by (simp add: sample_normalized_def normalized_of_def)
  from C8_location_split [OF normalize_dataframe_sample create_dimension_tables_sample mem]
  obtain l row where a: "location (sample_normalized ! 1) = Some l"
    and b: "filter (\<lambda>row'. loc_location row' = Some l) (location_table sample_dim_tables) = [row]"
    and c: "CHR '','' \<notin> set l \<longrightarrow> city row = Some l \<and> state row = None"
    by (elim exE conjE)
  from a loc have l: "l = ''Sharjah''" by simp
  have "CHR '','' \<notin> set ''Sharjah''" by simp
  with c have d: "city row = Some ''Sharjah''" "state row = None" unfolding l by simp_all
  show ?thesis
  proof (intro conjI exI)
    show "filter (\<lambda>row'. loc_location row' = Some ''Sharjah'')
            (location_table sample_dim_tables) = [row]" using b unfolding l .
  qed (rule normalize_dataframe_sample create_dimension_tables_sample mem loc d)+
qed

subsection \<open>Property categories\<close>

text \<open>
  The branches for \<open>townhouse\<close> and \<open>penthouse\<close> come after the test for \<open>house\<close>, which
  every such name passes: \<open>categorize_property\<close> never answers
  \<open>Residential-Townhouse\<close> or \<open>Residential-Luxury\<close>.
\<close>

lemma categorize_property_dead_branches:
  "categorize_property s \<noteq> ''Residential-Townhouse'' \<and>
   categorize_property s \<noteq> ''Residential-Luxury''"
  using house_in_townhouse [of "lower s"] house_in_penthouse [of "lower s"]
  by (auto simp: categorize_property_def Let_def)

text \<open>
  Claim C1.  The derived category follows the rule table in priority order, and the
  property type \<open>Penthouse Suite\<close> is meant to come out as \<open>Residential-Luxury\<close>.  The
  code evaluated at \<open>Penthouse Suite\<close> answers \<open>Residential-House\<close>, because
  \<open>house\<close> is a substring of \<open>penthouse suite\<close> and is tested first; \<open>Cozy Flat\<close> is
  \<open>Residential-Apartment\<close> as claimed.
\<close>

theorem C1_penthouse_suite_is_house:
  "categorize_property ''Penthouse Suite'' = ''Residential-House'' \<and>
   categorize_property ''Penthouse Suite'' \<noteq> ''Residential-Luxury'' \<and>
   categorize_property ''Cozy Flat'' = ''Residential-Apartment''"
  by (simp add: categorize_property_def lower_def lower_char_def ascii_upper_def ascii_lower_def)

section \<open>Properties of the Aggregator and Reporter\<close>

text \<open>
  The error entry of a failed query is a dictionary, which is true and is neither a list
  of records nor indexable by 0: the section of that query raises while the HTML report
  is generated.  So whichever query fails, \<open>generate_report\<close> answers with status 500 and
  uploads no report (\<open>failed_query_gives_500\<close>).
\<close>

lemma html_concat_Inl:
  "Inl e \<in> set parts \<Longrightarrow> \<exists>e'. html_concat parts = Inl e'"
  by (induction parts rule: html_concat.induct) (auto split: sum.splits)

lemma render_error_block:
  assumes "map_of results key = Some (ErrorDict m)"
  shows "render_if_present results key (\<lambda>key. block_section key block) = Inl (KeyError ''0'')"
  using assms by (simp add: render_if_present_def truthy_def block_section_def first_item_def)

lemma render_error_table:
  assumes "map_of results key = Some (ErrorDict m)" and "row (StrRow ''error'') = Inl e"
  shows "render_if_present results key (\<lambda>key. table_section key row) = Inl e"
  using assms by (simp add: render_if_present_def truthy_def table_section_def items_def)

lemma rows_on_a_string:
  "monthly_trends_row (StrRow s) = Inl (TypeError ''string indices must be integers'')"
  "location_analysis_row (StrRow s) = Inl (TypeError ''string indices must be integers'')"
  "property_type_distribution_row (StrRow s) = Inl (TypeError ''string indices must be integers'')"
  "top_10_expensive_row (StrRow s) = Inl (TypeError ''string indices must be integers'')"
  "price_brackets_row (StrRow s) = Inl (TypeError ''string indices must be integers'')"
  "bedroom_distribution_row (StrRow s) = Inl (TypeError ''string indices must be integers'')"
  by (simp_all add: monthly_trends_row_def location_analysis_row_def
      property_type_distribution_row_def top_10_expensive_row_def price_brackets_row_def
      bedroom_distribution_row_def getitem_def plain_def format_number_def greater_than_zero_def)

lemma error_entry_recorded:
  assumes "q \<in> set query_names" and "run_query q = Inl e"
  shows "map_of (execute_analytical_queries run_query) q = Some (ErrorDict (str_of_error e))"
proof -
  let ?f = "\<lambda>k. case run_query k of Inr df \<Rightarrow> Records df | Inl e \<Rightarrow> ErrorDict (str_of_error e)"
  have "execute_analytical_queries run_query = map (\<lambda>k. (k, ?f k)) query_names"
    by (auto simp: execute_analytical_queries_def execute_query_def split: sum.splits)
  then have "map_of (execute_analytical_queries run_query) q = Some (?f q)"
    using assms(1) by (simp add: map_of_map_restrict)
  with assms(2) show ?thesis by simp
qed

lemma other_results_recorded:
  assumes "q \<in> set query_names" and "run_query q = Inr df"
  shows "map_of (execute_analytical_queries run_query) q = Some (Records df)"
proof -
  let ?f = "\<lambda>k. case run_query k of Inr df \<Rightarrow> Records df | Inl e \<Rightarrow> ErrorDict (str_of_error e)"
  have "execute_analytical_queries run_query = map (\<lambda>k. (k, ?f k)) query_names"
    by (auto simp: execute_analytical_queries_def execute_query_def split: sum.splits)
  then have "map_of (execute_analytical_queries run_query) q = Some (?f q)"
    using assms(1) by (simp add: map_of_map_restrict)
  with assms(2) show ?thesis by simp
qed

lemma html_concat_nth:
  assumes "i < length parts" and "parts ! i = Inl e"
  shows "\<exists>e'. html_concat parts = Inl e'"
proof -
  from assms have "Inl e \<in> set parts" by (metis nth_mem)
  then show ?thesis by (rule html_concat_Inl)
qed

lemma query_name_cases:
  assumes "q \<in> set query_names"
  shows "q = ''summary_stats'' \<or> q = ''monthly_trends'' \<or> q = ''location_analysis'' \<or>
         q = ''property_type_distribution'' \<or> q = ''price_correlations'' \<or>
         q = ''top_10_expensive'' \<or> q = ''bedroom_distribution'' \<or> q = ''price_brackets''"
  using assms by (simp add: query_names_def)

lemma error_entry_breaks_report:
  assumes "q \<in> set query_names" and "map_of results q = Some (ErrorDict m)"
  shows "\<exists>e'. generate_html_report results timestamp = Inl e'"
proof -
  note block = render_error_block [of results _ m]
  note table = render_error_table [where results = results and m = m]
  from query_name_cases [OF assms(1)] show ?thesis
  proof (elim disjE)
    assume q: "q = ''summary_stats''"
    show ?thesis unfolding generate_html_report_def
      by (rule html_concat_nth [where i = 0]) (simp_all add: block [OF assms(2) [unfolded q]])
  next
    assume q: "q = ''monthly_trends''"
    show ?thesis unfolding generate_html_report_def
      by (rule html_concat_nth [where i = 1])
         (simp_all add: table [where row = monthly_trends_row, OF assms(2) [unfolded q] rows_on_a_string(1)])
  next
    assume q: "q = ''location_analysis''"
    show ?thesis unfolding generate_html_report_def
      by (rule html_concat_nth [where i = 2])
         (simp_all add: table [where row = location_analysis_row, OF assms(2) [unfolded q] rows_on_a_string(2)])
  next
    assume q: "q = ''property_type_distribution''"
    show ?thesis unfolding generate_html_report_def
      by (rule html_concat_nth [where i = 3])
         (simp_all add: table [where row = property_type_distribution_row, OF assms(2) [unfolded q] rows_on_a_string(3)])
  next
    assume q: "q = ''price_correlations''"
    show ?thesis unfolding generate_html_report_def
      by (rule html_concat_nth [where i = 4]) (simp_all add: block [OF assms(2) [unfolded q]])
  next
    assume q: "q = ''top_10_expensive''"
    show ?thesis unfolding generate_html_report_def
      by (rule html_concat_nth [where i = 5])
         (simp_all add: table [where row = top_10_expensive_row, OF assms(2) [unfolded q] rows_on_a_string(4)])
  next
    assume q: "q = ''bedroom_distribution''"
    show ?thesis unfolding generate_html_report_def
      by (rule html_concat_nth [where i = 7])
         (simp_all add: table [where row = bedroom_distribution_row, OF assms(2) [unfolded q] rows_on_a_string(6)])
  next
    assume q: "q = ''price_brackets''"
    show ?thesis unfolding generate_html_report_def
      by (rule html_concat_nth [where i = 6])
         (simp_all add: table [where row = price_brackets_row, OF assms(2) [unfolded q] rows_on_a_string(5)])
  qed
qed

lemma failed_query_breaks_report:
  assumes "q \<in> set query_names" and "run_query q = Inl e"
  shows "\<exists>e'. generate_html_report (execute_analytical_queries run_query) timestamp = Inl e'"
  using assms(1) error_entry_recorded [of q run_query e, OF assms]
  by (rule error_entry_breaks_report)

lemma failed_query_gives_500:
  assumes "q \<in> set query_names" and "run_query q = Inl e"
  shows "\<exists>m. generate_report run_query timestamp bucket_contents =
           ((ErrorBody m, 500), bucket_contents)"
proof -
  from failed_query_breaks_report [of q run_query e timestamp, OF assms] obtain e' where
    "generate_html_report (execute_analytical_queries run_query) timestamp = Inl e'" ..
  then show ?thesis by (simp add: generate_report_def)
qed

subsection \<open>A run in which the price correlations query raises\<close>

lemma error_entry_sample: "map_of (execute_analytical_queries failing_correlations) ''price_correlations'' =
     Some (ErrorDict ''400 CORR failed'')"
  by code_simp

lemma other_entries_sample:
  "map snd (filter (\<lambda>kr. fst kr \<noteq> ''price_correlations'')
          (execute_analytical_queries failing_correlations)) =
     replicate 7 (Records [sample_record])"
  by code_simp

lemma html_report_sample:
  "generate_html_report (execute_analytical_queries failing_correlations) ''20240201_090000'' =
     Inl (KeyError ''0'')"
  by code_simp

lemma generate_report_sample:
  "generate_report failing_correlations ''20240201_090000'' [] = ((ErrorBody ''0'', 500), [])"
  by code_simp

lemma generate_report_healthy:
  "fst (generate_report healthy_warehouse ''20240201_090000'' []) =
     (SuccessBody ''20240201_090000'' 8, 200)"
  by code_simp

text \<open>
  Claim C5.  When one query fails, its failure is recorded and the other seven results
  are produced, and the report is meant to be rendered from them with status 200.  In the
  run in which the price correlations query raises, the error entry is recorded and the
  other seven entries hold their records, but \<open>generate_html_report\<close> raises
  \<open>KeyError\<close> on \<open>results['price_correlations'][0]\<close> and \<open>generate_report\<close> answers with
  status 500 and uploads nothing.
\<close>

theorem C5_failed_query_gives_500:
  "map_of (execute_analytical_queries failing_correlations) ''price_correlations'' =
     Some (ErrorDict ''400 CORR failed'') \<and>
   map snd (filter (\<lambda>kr. fst kr \<noteq> ''price_correlations'')
          (execute_analytical_queries failing_correlations)) =
     replicate 7 (Records [sample_record]) \<and>
   generate_html_report (execute_analytical_queries failing_correlations) ''20240201_090000'' =
     Inl (KeyError ''0'') \<and>
   generate_report failing_correlations ''20240201_090000'' [] = ((ErrorBody ''0'', 500), [])"
  by (intro conjI error_entry_sample other_entries_sample html_report_sample
      generate_report_sample)

section \<open>Properties of the entry point \<open>src/main.py\<close>\<close>

text \<open>
  Claim C10, as amended.  For every storage event whose object name ends in \<open>.csv\<close>,
  \<open>process_csv\<close> of \<open>src/main.py\<close> raises: \<open>NameError\<close> for the unimported \<open>io\<close>
  whenever the object could be downloaded, and the exception of the download itself
  otherwise.  Nothing is transformed or loaded (the steps after the read of \<open>io\<close> do not
  influence the result and the warehouse is unchanged), so no CSV file is ever processed.
\<close>

theorem C10_src_main_never_succeeds:
  assumes "endswith (name ev) ''.csv''"
  shows "src_main_process_csv read_csv steps storage wh ev =
           (case storage (bucket ev, name ev) of
              None \<Rightarrow> (Inl (NotFound (name ev)), wh)
            | Some content \<Rightarrow> (Inl (NameError ''io''), wh))"
  using assms
  by (simp add: src_main_process_csv_def load_global_def src_main_globals_def split: option.splits)

theorem C10_src_main_never_succeeds_witness:
  "endswith (name (upload_event ''listings.csv'')) ''.csv'' \<and>
   src_main_process_csv sample_read_csv (transform_and_load sample_clock) sample_storage
       empty_warehouse (upload_event ''listings.csv'') =
     (Inl (NameError ''io''), empty_warehouse)"
proof -
  have h: "endswith (name (upload_event ''listings.csv'')) ''.csv''" by code_simp
  have s: "sample_storage (bucket (upload_event ''listings.csv''), name (upload_event ''listings.csv''))
     = Some ''listings''"
    by (simp add: sample_storage_def upload_event_def)
  from C10_src_main_never_succeeds [OF h, of sample_read_csv "transform_and_load sample_clock"
      sample_storage empty_warehouse]
  show ?thesis using h s by simp
qed

text \<open>
  The claim as first stated says \<open>NameError\<close> for every such event; for an object that
  is no longer in the bucket the download raises first.
\<close>

theorem C10_missing_object_counterexample:
  "endswith (name (upload_event ''gone.csv'')) ''.csv'' \<and>
   fst (src_main_process_csv sample_read_csv (transform_and_load sample_clock) sample_storage
       empty_warehouse (upload_event ''gone.csv'')) = Inl (NotFound ''gone.csv'') \<and>
   fst (src_main_process_csv sample_read_csv (transform_and_load sample_clock) sample_storage
       empty_warehouse (upload_event ''gone.csv'')) \<noteq> Inl (NameError ''io'')"
proof -
  have h: "endswith (name (upload_event ''gone.csv'')) ''.csv''" by code_simp
  have s: "sample_storage (bucket (upload_event ''gone.csv''), name (upload_event ''gone.csv''))
     = None"
    by (simp add: sample_storage_def upload_event_def)
  have "src_main_process_csv sample_read_csv (transform_and_load sample_clock) sample_storage
       empty_warehouse (upload_event ''gone.csv'') = (Inl (NotFound ''gone.csv''), empty_warehouse)"
    using h s by (simp add: src_main_process_csv_def upload_event_def)
  with h show ?thesis by simp
qed

section \<open>Properties of the date dimension and the Fact Loader\<close>

subsection \<open>The days of the date dimension\<close>

lemma day_number_add: "day_number (t + k * ns_per_day) = day_number t + k"
  by (simp add: day_number_def ns_per_day_def)

lemma day_number_mono: "s \<le> t \<Longrightarrow> day_number s \<le> day_number t"
  by (simp add: day_number_def ns_per_day_def zdiv_mono1)

lemma span_in_days:
  "(hi - lo) div ns_per_day =
     day_number hi - day_number lo - (if time_of_day lo \<le> time_of_day hi then 0 else 1)"
proof -
  let ?D = "ns_per_day"
  have D: "0 < ?D" by (simp add: ns_per_day_def)
  have hi: "hi = ?D * day_number hi + time_of_day hi"
    and lo: "lo = ?D * day_number lo + time_of_day lo"
    by (simp_all add: day_number_def time_of_day_def)
  have rh: "0 \<le> time_of_day hi" "time_of_day hi < ?D"
    and rl: "0 \<le> time_of_day lo" "time_of_day lo < ?D"
    using D by (simp_all add: time_of_day_def)
  show ?thesis
  proof (cases "time_of_day lo \<le> time_of_day hi")
    case True
    have "hi - lo = ?D * (day_number hi - day_number lo) + (time_of_day hi - time_of_day lo)"
      using hi lo by (simp add: algebra_simps)
    moreover have "0 \<le> time_of_day hi - time_of_day lo" using True by simp
    moreover have "time_of_day hi - time_of_day lo < ?D" using rh rl by simp
    ultimately have "(hi - lo) div ?D = day_number hi - day_number lo"
      by (rule int_div_pos_eq)
    with True show ?thesis by simp
  next
    case False
    have "hi - lo = ?D * (day_number hi - day_number lo - 1) +
        (time_of_day hi - time_of_day lo + ?D)"
      using hi lo by (simp add: algebra_simps)
    moreover have "0 \<le> time_of_day hi - time_of_day lo + ?D" using rh rl by simp
    moreover have "time_of_day hi - time_of_day lo + ?D < ?D" using False by simp
    ultimately have "(hi - lo) div ?D = day_number hi - day_number lo - 1"
      by (rule int_div_pos_eq)
    with False show ?thesis by simp
  qed
qed

lemma map_add_upto: "map (\<lambda>k. a + k) [0..n] = [a..a + n]"
proof (rule nth_equalityI)
  show "length (map (\<lambda>k. a + k) [0..n]) = length [a..a + n]" by simp
next
  fix k assume "k < length (map (\<lambda>k. a + k) [0..n])"
  then have k: "int k \<le> n" by simp
  then show "map (\<lambda>k. a + k) [0..n] ! k = [a..a + n] ! k" by simp
qed

lemma days_of_date_range:
  "map day_number (date_range lo hi) =
     [day_number lo..day_number hi - (if time_of_day lo \<le> time_of_day hi then 0 else 1)]"
proof -
  have "map day_number (date_range lo hi) =
      map (\<lambda>k. day_number lo + k) [0..(hi - lo) div ns_per_day]"
    by (simp add: date_range_def day_number_add comp_def)
  also have "\<dots> = [day_number lo..day_number lo + (hi - lo) div ns_per_day]"
    by (rule map_add_upto)
  also have "day_number lo + (hi - lo) div ns_per_day =
      day_number hi - (if time_of_day lo \<le> time_of_day hi then 0 else 1)"
    by (simp add: span_in_days)
  finally show ?thesis .
qed

lemma strftime_Ymd_int_day:
  "day_number s = day_number t \<Longrightarrow> strftime_Ymd_int s = strftime_Ymd_int t"
  by (simp add: strftime_Ymd_int_def dt_year_def dt_month_def dt_day_def)

lemma series_min_Some:
  assumes "series_min col = Some lo"
  shows "Some lo \<in> set col" and "\<And>t. Some t \<in> set col \<Longrightarrow> lo \<le> t"
proof -
  from assms obtain v vs where vs: "dropna_values col = v # vs" and lo: "lo = fold min vs v"
    by (auto simp: series_min_def split: list.splits)
  have m: "lo = Min (set (v # vs))" unfolding lo by (simp only: Min.set_eq_fold)
  have s: "set (v # vs) = {t. Some t \<in> set col}" using vs dropna_values_set [of col] by simp
  have "lo \<in> set (v # vs)" unfolding m by (rule Min_in) simp_all
  then show "Some lo \<in> set col" unfolding s by simp
  fix t assume "Some t \<in> set col"
  then have "t \<in> set (v # vs)" unfolding s by simp
  then show "lo \<le> t" unfolding m by (intro Min_le) simp_all
qed

lemma series_max_Some:
  assumes "series_max col = Some hi"
  shows "Some hi \<in> set col" and "\<And>t. Some t \<in> set col \<Longrightarrow> t \<le> hi"
proof -
  from assms obtain v vs where vs: "dropna_values col = v # vs" and hi: "hi = fold max vs v"
    by (auto simp: series_max_def split: list.splits)
  have m: "hi = Max (set (v # vs))" unfolding hi by (simp only: Max.set_eq_fold)
  have s: "set (v # vs) = {t. Some t \<in> set col}" using vs dropna_values_set [of col] by simp
  have "hi \<in> set (v # vs)" unfolding m by (rule Max_in) simp_all
  then show "Some hi \<in> set col" unfolding s by simp
  fix t assume "Some t \<in> set col"
  then have "t \<in> set (v # vs)" unfolding s by simp
  then show "t \<le> hi" unfolding m by (intro Max_ge) simp_all
qed

lemma build_dates_Inr:
  assumes "build_dates df = Inr dates"
  obtains lo hi where "series_min (map list_date df) = Some lo"
    and "series_max (map list_date df) = Some hi"
    and "dates = map date_row_of (date_range lo hi)"
  using assms by (auto simp: build_dates_def split: option.splits)

text \<open>
  The days of the date dimension: every day from that of the smallest \<open>list_date\<close> to
  that of the largest when the time of day of the smallest is not after that of the
  largest, and all of them but the last day otherwise.
\<close>

lemma date_spine_days:
  assumes "build_dates df = Inr dates"
  shows "\<exists>lo hi. series_min (map list_date df) = Some lo \<and>
           series_max (map list_date df) = Some hi \<and>
           map (\<lambda>row. day_number (full_date row)) dates =
             [day_number lo..
              day_number hi - (if time_of_day lo \<le> time_of_day hi then 0 else 1)] \<and>
           map date_id dates = map strftime_Ymd_int (map full_date dates)"
proof -
  from assms obtain lo hi where lo: "series_min (map list_date df) = Some lo"
    and hi: "series_max (map list_date df) = Some hi"
    and dates: "dates = map date_row_of (date_range lo hi)"
    by (rule build_dates_Inr)
  have "map (\<lambda>row. day_number (full_date row)) dates = map day_number (date_range lo hi)"
    by (simp add: dates date_row_of_def comp_def)
  moreover have "map date_id dates = map strftime_Ymd_int (map full_date dates)"
    by (simp add: dates date_row_of_def comp_def)
  ultimately show ?thesis using lo hi days_of_date_range by simp
qed

subsection \<open>The three joins\<close>

lemma merge_left_member:
  assumes "x \<in> set (merge_left left_on right_on left right)"
  shows "fst x \<in> set left"
    and "left_on (fst x) \<in> set (map right_on right) \<Longrightarrow> \<exists>m. snd x = Some m"
    and "\<And>m. snd x = Some m \<Longrightarrow> right_on m = left_on (fst x)"
proof -
  let ?matches = "\<lambda>l. filter (\<lambda>r. right_on r = left_on l) right"
  from assms obtain l where l: "l \<in> set left"
    and x: "x \<in> set (case ?matches l of [] \<Rightarrow> [(l, None)]
                        | m # ms \<Rightarrow> map (\<lambda>r. (l, Some r)) (m # ms))"
    unfolding merge_left_def by auto
  have fx: "fst x = l" using x by (cases "?matches l") auto
  show "fst x \<in> set left" using l fx by simp
  assume "left_on (fst x) \<in> set (map right_on right)"
  then have "?matches l \<noteq> []" unfolding fx by (auto simp: filter_empty_conv)
  then obtain m ms where "?matches l = m # ms" by (cases "?matches l") auto
  with x show "\<exists>m. snd x = Some m" by auto
next
  fix m assume m: "snd x = Some m"
  let ?matches = "filter (\<lambda>r. right_on r = left_on (fst x)) right"
  from assms obtain l where l: "l \<in> set left"
    and x: "x \<in> set (case filter (\<lambda>r. right_on r = left_on l) right of [] \<Rightarrow> [(l, None)]
                        | m # ms \<Rightarrow> map (\<lambda>r. (l, Some r)) (m # ms))"
    unfolding merge_left_def by auto
  have fx: "fst x = l" using x by (cases "filter (\<lambda>r. right_on r = left_on l) right") auto
  from x m have "m \<in> set ?matches"
    unfolding fx by (cases "filter (\<lambda>r. right_on r = left_on l) right") auto
  then show "right_on m = left_on (fst x)" by simp
qed

lemma joined_row_keys:
  assumes "j \<in> set (join_dimensions dims df)"
  shows "fst (fst (fst j)) \<in> set df"
    and "location (fst (fst (fst j))) \<in> set (map loc_location (location_table dims))
           \<Longrightarrow> \<exists>l. snd (fst (fst j)) = Some l"
    and "property_type (fst (fst (fst j))) \<in> set (map pt_property_type (property_type_table dims))
           \<Longrightarrow> \<exists>p. snd (fst j) = Some p"
    and "map_option strftime_Ymd_int (list_date (fst (fst (fst j))))
           \<in> set (map (\<lambda>d. Some (date_id d)) (date_table dims))
           \<Longrightarrow> \<exists>d. snd j = Some d"
proof -
  let ?m1 = "merge_left location loc_location df (location_table dims)"
  let ?m2 = "merge_left (\<lambda>j. property_type (fst j)) pt_property_type ?m1
               (property_type_table dims)"
  from assms have j3: "j \<in> set (merge_left
      (\<lambda>j. map_option strftime_Ymd_int (list_date (fst (fst j))))
      (\<lambda>d. Some (date_id d)) ?m2 (date_table dims))"
    by (simp add: join_dimensions_def)
  from merge_left_member(1) [OF j3] have j2: "fst j \<in> set ?m2" .
  from merge_left_member(1) [OF j2] have j1: "fst (fst j) \<in> set ?m1" .
  from merge_left_member(1) [OF j1] show "fst (fst (fst j)) \<in> set df" .
  show "\<exists>l. snd (fst (fst j)) = Some l"
    if "location (fst (fst (fst j))) \<in> set (map loc_location (location_table dims))"
    using merge_left_member(2) [OF j1] that by simp
  show "\<exists>p. snd (fst j) = Some p"
    if "property_type (fst (fst (fst j))) \<in> set (map pt_property_type (property_type_table dims))"
    using merge_left_member(2) [OF j2] that by simp
  show "\<exists>d. snd j = Some d"
    if "map_option strftime_Ymd_int (list_date (fst (fst (fst j))))
           \<in> set (map (\<lambda>d. Some (date_id d)) (date_table dims))"
    using merge_left_member(2) [OF j3] that by simp
qed

lemma joined_row_date:
  assumes "j \<in> set (join_dimensions dims df)" and "snd j = Some d"
  shows "Some (date_id d) = map_option strftime_Ymd_int (list_date (fst (fst (fst j))))"
proof -
  let ?m2 = "merge_left (\<lambda>j. property_type (fst j)) pt_property_type
               (merge_left location loc_location df (location_table dims))
               (property_type_table dims)"
  from assms(1) have "j \<in> set (merge_left
      (\<lambda>j. map_option strftime_Ymd_int (list_date (fst (fst j))))
      (\<lambda>d. Some (date_id d)) ?m2 (date_table dims))"
    by (simp add: join_dimensions_def)
  from merge_left_member(3) [OF this assms(2)] show ?thesis .
qed

lemma fact_rows_member:
  assumes "f \<in> set (fact_rows dims df)"
  obtains i j where "j \<in> set (join_dimensions dims df)" and "f = fact_row_of (i, j)"
proof -
  from assms obtain ij where ij: "ij \<in> set (enumerate 1 (join_dimensions dims df))"
    and f: "f = fact_row_of ij"
    unfolding fact_rows_def by auto
  from ij have "snd ij \<in> set (map snd (enumerate 1 (join_dimensions dims df)))"
    by (metis image_eqI set_map)
  then have "snd ij \<in> set (join_dimensions dims df)" by (simp only: map_snd_enumerate)
  with f that [of "snd ij" "fst ij"] show thesis by simp
qed

text \<open>
  The joins on \<open>location\<close> and on \<open>property_type\<close> find a row for every fact row: the
  keys of these dimensions are the values of the batch itself.
\<close>

lemma location_and_type_keys_resolved:
  assumes "create_dimension_tables utcnow df wh = (Inr dims, wh1)"
    and "f \<in> set (fact_rows dims df)"
  shows "f_location_id f \<noteq> None \<and> f_property_type_id f \<noteq> None"
proof -
  from assms(1) obtain pts dates where pts: "build_property_types (utcnow 1) df = Inr pts"
    and dims: "dims = \<lparr>location_table = build_locations (utcnow 0) df,
                        property_type_table = pts, date_table = dates\<rparr>"
    by (rule create_dimension_tables_Inr)
  from assms(2) obtain i j where j: "j \<in> set (join_dimensions dims df)"
    and f: "f = fact_row_of (i, j)"
    by (rule fact_rows_member)
  let ?r = "fst (fst (fst j))"
  from joined_row_keys(1) [OF j] have r: "?r \<in> set df" .
  have "map loc_location (location_table dims) = drop_duplicates (map location df)"
    by (simp add: dims build_locations_keys)
  then have "set (map loc_location (location_table dims)) = set (map location df)"
    by (simp only: set_drop_duplicates)
  with r have "location ?r \<in> set (map loc_location (location_table dims))" by simp
  from joined_row_keys(2) [OF j this] obtain l where l: "snd (fst (fst j)) = Some l" ..
  have "map pt_property_type (property_type_table dims) = drop_duplicates (map property_type df)"
    using build_property_types_Inr(2) [OF pts] by (simp add: dims)
  then have "set (map pt_property_type (property_type_table dims)) = set (map property_type df)"
    by (simp only: set_drop_duplicates)
  with r have "property_type ?r \<in> set (map pt_property_type (property_type_table dims))" by simp
  from joined_row_keys(3) [OF j this] obtain p where p: "snd (fst j) = Some p" ..
  from l p show ?thesis by (simp add: f fact_row_of_def)
qed

text \<open>
  The join on the date finds a row for every dated fact row when the time of day of the
  smallest \<open>list_date\<close> is not after that of the largest, as it is when no \<open>list_date\<close>
  carries a time of day.
\<close>

lemma date_key_resolved:
  assumes "create_dimension_tables utcnow df wh = (Inr dims, wh1)"
    and "series_min (map list_date df) = Some lo"
    and "series_max (map list_date df) = Some hi"
    and "time_of_day lo \<le> time_of_day hi"
    and "f \<in> set (fact_rows dims df)"
    and "f_list_date f = Some t"
  shows "f_date_id f = Some (strftime_Ymd_int t)"
proof -
  from assms(1) obtain pts dates where bd: "build_dates df = Inr dates"
    and dims: "dims = \<lparr>location_table = build_locations (utcnow 0) df,
                        property_type_table = pts, date_table = dates\<rparr>"
    by (rule create_dimension_tables_Inr)
  from assms(5) obtain i j where j: "j \<in> set (join_dimensions dims df)"
    and f: "f = fact_row_of (i, j)"
    by (rule fact_rows_member)
  let ?r = "fst (fst (fst j))"
  from joined_row_keys(1) [OF j] have r: "?r \<in> set df" .
  from assms(6) have t: "list_date ?r = Some t" by (simp add: f fact_row_of_def)
  with r have mem: "Some t \<in> set (map list_date df)" by (metis image_eqI set_map)
  have "lo \<le> t" using series_min_Some(2) [OF assms(2) mem] .
  moreover have "t \<le> hi" using series_max_Some(2) [OF assms(3) mem] .
  ultimately have between: "day_number lo \<le> day_number t" "day_number t \<le> day_number hi"
    by (simp_all add: day_number_mono)
  from date_spine_days [OF bd] assms(2,3,4)
  have days: "map (\<lambda>row. day_number (full_date row)) dates = [day_number lo..day_number hi]"
    by simp
  from between have "day_number t \<in> set [day_number lo..day_number hi]" by simp
  then have "day_number t \<in> set (map (\<lambda>row. day_number (full_date row)) dates)"
    unfolding days .
  then obtain row where row: "row \<in> set dates" and d: "day_number (full_date row) = day_number t"
    by auto
  from bd obtain lo' hi' where "dates = map date_row_of (date_range lo' hi')"
    by (rule build_dates_Inr)
  with row have "date_id row = strftime_Ymd_int (full_date row)"
    by (auto simp: date_row_of_def)
  with strftime_Ymd_int_day [OF d] have id: "date_id row = strftime_Ymd_int t" by simp
  with row have "Some (strftime_Ymd_int t) \<in> set (map (\<lambda>d. Some (date_id d)) dates)"
    by force
  then have "map_option strftime_Ymd_int (list_date ?r)
      \<in> set (map (\<lambda>d. Some (date_id d)) (date_table dims))"
    by (simp add: t dims)
  from joined_row_keys(4) [OF j this] obtain m where m: "snd j = Some m" ..
  from joined_row_date [OF j m]
  have "Some (date_id m) = map_option strftime_Ymd_int (list_date ?r)" .
  with t m show ?thesis by (simp add: f fact_row_of_def)
qed

subsection \<open>The sample batch, whose dates carry a time of day\<close>

lemma date_range_sample:
  "series_min (map list_date sample_normalized) = Some (Timestamp 2024 1 15 13 45 0) \<and>
   series_max (map list_date sample_normalized) = Some (Timestamp 2024 1 17 8 0 0) \<and>
   date_range (Timestamp 2024 1 15 13 45 0) (Timestamp 2024 1 17 8 0 0) =
     [Timestamp 2024 1 15 13 45 0, Timestamp 2024 1 16 13 45 0]"
  by code_simp

lemma date_ids_sample:
  "map date_id (date_table sample_dim_tables) = [20240115, 20240116] \<and>
   map (\<lambda>r. map_option strftime_Ymd_int (list_date r)) sample_normalized =
     [Some 20240115, Some 20240116, Some 20240117, Some 20240116]"
  by code_simp

lemma process_csv_sample:
  "fst (process_csv sample_read_csv sample_storage sample_clock empty_warehouse
          (upload_event ''listings.csv'')) = Inr (Some (''Success'', 200))"
  by code_simp

lemma fact_keys_sample:
  "map (\<lambda>f. (f_location_id f, f_property_type_id f, f_date_id f))
     (fact_listings (snd (process_csv sample_read_csv sample_storage sample_clock
        empty_warehouse (upload_event ''listings.csv'')))) =
     [(Some 1, Some 1, Some 20240115), (Some 2, Some 2, Some 20240116),
      (Some 2, Some 3, None), (Some 3, Some 4, Some 20240116)]"
  by code_simp

lemma dim_date_sample:
  "dim_date (snd (process_csv sample_read_csv sample_storage sample_clock
        empty_warehouse (upload_event ''listings.csv''))) = date_table sample_dim_tables"
  by code_simp

text \<open>
  Claim C4.  The date dimension is meant to hold one row for every calendar day from the
  smallest to the largest \<open>list_date\<close> of the batch.  The sample batch has listings from
  2024-01-15 13:45 to 2024-01-17 08:00: the range steps by whole days from 13:45 on the
  15th, stops before 13:45 on the 17th, and the date dimension holds the 15th and the
  16th only, although a listing of the batch is dated the 17th.  By \<open>date_spine_days\<close>
  the last day is missing exactly when the time of day of the largest \<open>list_date\<close> is
  before that of the smallest.
\<close>

theorem C4_date_spine_misses_last_day:
  "normalize_dataframe sample_clock sample_df = Inr sample_normalized \<and>
   fst (create_dimension_tables load_clock sample_normalized empty_warehouse) =
     Inr sample_dim_tables \<and>
   series_max (map list_date sample_normalized) = Some (Timestamp 2024 1 17 8 0 0) \<and>
   strftime_Ymd_int (Timestamp 2024 1 17 8 0 0) = 20240117 \<and>
   map date_id (date_table sample_dim_tables) = [20240115, 20240116]"
proof -
  have "strftime_Ymd_int (Timestamp 2024 1 17 8 0 0) = 20240117" by code_simp
  then show ?thesis
    using normalize_dataframe_sample create_dimension_tables_sample date_range_sample
      date_ids_sample
    by simp
qed

text \<open>
  Claim C9.  Every fact row is meant to get its three foreign keys from the dimension
  tables built from the same batch in the same run.  In the run of \<open>process_csv\<close> on the
  sample file the location and property type keys are all found, but the listing dated
  2024-01-17 08:00 finds no \<open>date_id\<close> 20240117 in the date dimension of its own batch: its
  fact row is loaded with a missing \<open>date_id\<close>.  The first two joins never miss
  (\<open>location_and_type_keys_resolved\<close>); the date join does not miss when the time of day
  of the smallest \<open>list_date\<close> is not after that of the largest (\<open>date_key_resolved\<close>).
\<close>

theorem C9_fact_row_without_date_id:
  "fst (process_csv sample_read_csv sample_storage sample_clock empty_warehouse
          (upload_event ''listings.csv'')) = Inr (Some (''Success'', 200)) \<and>
   map (\<lambda>f. (f_location_id f, f_property_type_id f, f_date_id f))
     (fact_listings (snd (process_csv sample_read_csv sample_storage sample_clock
        empty_warehouse (upload_event ''listings.csv'')))) =
     [(Some 1, Some 1, Some 20240115), (Some 2, Some 2, Some 20240116),
      (Some 2, Some 3, None), (Some 3, Some 4, Some 20240116)] \<and>
   map date_id (dim_date (snd (process_csv sample_read_csv sample_storage sample_clock
        empty_warehouse (upload_event ''listings.csv'')))) = [20240115, 20240116]"
  using process_csv_sample fact_keys_sample dim_date_sample date_ids_sample by simp

end
